theory Spec2Isabelle
  imports Main
begin

text \<open>
  A model of the persistence plugin for a feature-flag evaluator: the stored entry and its
  expiry tests, the storage adapters (in memory, localStorage, cookies), and the interceptor
  that persists every successful read and restores a stored value when the evaluator throws.
  Time, exceptions, promises, the observers and the browser's stores are explicit: every
  function takes the clock readings it makes, returns the state it leaves, and says in its
  result whether it returned or threw.
\<close>

section \<open>Entries and the two expiry tests\<close>

text \<open>
  \<^verbatim>\<open>types.ts\<close>: a \<^verbatim>\<open>PersistedFlagEntry\<close> is \<^verbatim>\<open>{value, persistedAt, expiresAt?}\<close>.
  Timestamps are millisecond counts, modelled as integers; the optional field is an
  \<open>option\<close>. The field \<^verbatim>\<open>value\<close> is called \<open>flag_value\<close> here.
\<close>

record PersistedFlagEntry =
  flag_value :: bool
  persistedAt :: int
  expiresAt :: "int option"

text \<open>
  JavaScript truthiness of an optional number: \<^verbatim>\<open>undefined\<close> and \<^verbatim>\<open>0\<close> are falsy.
\<close>

definition truthy :: "int option \<Rightarrow> bool" where
  "truthy x = (case x of None \<Rightarrow> False | Some n \<Rightarrow> n \<noteq> 0)"

text \<open>
  The adapters' TTL check, \<^verbatim>\<open>entry.expiresAt && Date.now() > entry.expiresAt\<close>
  (memory adapter, localStorage adapter, cookie adapter): the entry is dropped when it holds.
\<close>

definition adapter_expired :: "int \<Rightarrow> PersistedFlagEntry \<Rightarrow> bool" where
  "adapter_expired now entry =
     (case expiresAt entry of None \<Rightarrow> False | Some x \<Rightarrow> x \<noteq> 0 \<and> now > x)"

text \<open>
  The interceptor's test, \<^verbatim>\<open>!entry.expiresAt || Date.now() < entry.expiresAt\<close>
  (\<^verbatim>\<open>with-persistence.ts\<close>, in the pre-load of \<^verbatim>\<open>init\<close> and twice in \<^verbatim>\<open>restoreFlag\<close>).
\<close>

definition entry_valid :: "int \<Rightarrow> PersistedFlagEntry \<Rightarrow> bool" where
  "entry_valid now entry =
     (case expiresAt entry of None \<Rightarrow> True | Some x \<Rightarrow> x = 0 \<or> now < x)"

text \<open>
  \<^verbatim>\<open>x && (!x.expiresAt || Date.now() < x.expiresAt)\<close> on a possibly absent entry:
  the entry when the guard holds, nothing otherwise.
\<close>

definition valid_entry :: "int \<Rightarrow> PersistedFlagEntry option \<Rightarrow> PersistedFlagEntry option" where
  "valid_entry now r =
     (case r of None \<Rightarrow> None | Some e \<Rightarrow> if entry_valid now e then Some e else None)"

section \<open>Exceptions, promises and the adapter interface\<close>

text \<open>
  A thrown value is an \<^verbatim>\<open>Error\<close> object (with its message) or any other value (with its
  \<^verbatim>\<open>String(e)\<close>). \<^verbatim>\<open>e instanceof Error ? e : new Error(String(e))\<close> is \<open>to_Error\<close>.
\<close>

datatype thrown = ErrorObj string | NonError string

fun to_Error :: "thrown \<Rightarrow> thrown" where
  "to_Error (ErrorObj m) = ErrorObj m"
| "to_Error (NonError s) = ErrorObj s"

text \<open>A call either returns or throws; a result is either plain or a promise, given with
  the way it eventually settles.\<close>

datatype 'a completion = Returns 'a | Throws thrown

datatype 'a maybe_promise = Sync 'a | Promise "'a completion"

text \<open>
  \<^verbatim>\<open>StorageAdapter\<close> (\<^verbatim>\<open>types.ts\<close>), over the adapter's backing state \<open>'s\<close>. The integer
  handed to \<open>adapter_get\<close> is what \<^verbatim>\<open>Date.now()\<close> returns inside the adapter.
\<close>

record 's StorageAdapter =
  adapter_get :: "string \<Rightarrow> int \<Rightarrow> 's \<Rightarrow> PersistedFlagEntry option maybe_promise completion \<times> 's"
  adapter_set :: "string \<Rightarrow> PersistedFlagEntry \<Rightarrow> 's \<Rightarrow> unit maybe_promise completion \<times> 's"
  adapter_remove :: "string \<Rightarrow> 's \<Rightarrow> unit maybe_promise completion \<times> 's"
  isAvailable :: "'s \<Rightarrow> bool \<times> 's"

text \<open>The built-in adapters are synchronous and never throw: their methods are given as
  plain state transformers and wrapped here.\<close>

definition sync_adapter ::
  "(string \<Rightarrow> int \<Rightarrow> 's \<Rightarrow> PersistedFlagEntry option \<times> 's) \<Rightarrow>
   (string \<Rightarrow> PersistedFlagEntry \<Rightarrow> 's \<Rightarrow> 's) \<Rightarrow> (string \<Rightarrow> 's \<Rightarrow> 's) \<Rightarrow> ('s \<Rightarrow> bool \<times> 's) \<Rightarrow>
   's StorageAdapter" where
  "sync_adapter g s r a =
     \<lparr> adapter_get = (\<lambda>key now st. (Returns (Sync (fst (g key now st))), snd (g key now st))),
       adapter_set = (\<lambda>key entry st. (Returns (Sync ()), s key entry st)),
       adapter_remove = (\<lambda>key st. (Returns (Sync ()), r key st)),
       isAvailable = a \<rparr>"

section \<open>The in-memory adapter\<close>

text \<open>The module-level \<^verbatim>\<open>Map<string, PersistedFlagEntry>\<close> is the state.\<close>

type_synonym memory_storage = "string \<rightharpoonup> PersistedFlagEntry"

definition memory_get :: "string \<Rightarrow> int \<Rightarrow> memory_storage \<Rightarrow> PersistedFlagEntry option \<times> memory_storage" where
  "memory_get key now storage =
     (case storage key of
        None \<Rightarrow> (None, storage)
      | Some entry \<Rightarrow>
          if adapter_expired now entry then (None, storage(key := None))
          else (Some entry, storage))"

definition memory_set :: "string \<Rightarrow> PersistedFlagEntry \<Rightarrow> memory_storage \<Rightarrow> memory_storage" where
  "memory_set key entry storage = storage(key \<mapsto> entry)"

definition memory_remove :: "string \<Rightarrow> memory_storage \<Rightarrow> memory_storage" where
  "memory_remove key storage = storage(key := None)"

definition memory_isAvailable :: "memory_storage \<Rightarrow> bool \<times> memory_storage" where
  "memory_isAvailable storage = (True, storage)"

definition memoryAdapter :: "memory_storage StorageAdapter" where
  "memoryAdapter = sync_adapter memory_get memory_set memory_remove memory_isAvailable"

section \<open>The interceptor\<close>

text \<open>
  \<^verbatim>\<open>with-persistence.ts\<close> holds the wrapper twice; the model follows the first copy,
  the one with the shadow cache and \<^verbatim>\<open>init\<close>.
  The observers \<^verbatim>\<open>onRestore\<close>, \<^verbatim>\<open>onPersist\<close> and \<^verbatim>\<open>onError\<close> are optional; each option
  records whether one is registered, and an invocation is an event appended to a log.
  Observers are taken not to throw.
\<close>

datatype event = OnRestore string bool | OnPersist string bool | OnError thrown

record 's PersistenceOptions =
  adapter :: "'s StorageAdapter"
  prefix :: "string option"
  ttlMs :: "int option"
  onRestore :: bool
  onPersist :: bool
  onError :: bool

definition DEFAULT_PREFIX :: string where
  "DEFAULT_PREFIX = ''flipflag:''"

definition DEFAULT_TTL_MS :: int where
  "DEFAULT_TTL_MS = 24 * 60 * 60 * 1000"

definition prefix_of :: "('s, 'x) PersistenceOptions_scheme \<Rightarrow> string" where
  "prefix_of opts = (case prefix opts of None \<Rightarrow> DEFAULT_PREFIX | Some p \<Rightarrow> p)"

definition ttl_of :: "('s, 'x) PersistenceOptions_scheme \<Rightarrow> int" where
  "ttl_of opts = (case ttlMs opts of None \<Rightarrow> DEFAULT_TTL_MS | Some t \<Rightarrow> t)"

text \<open>\<^verbatim>\<open>cb?.(...)\<close>: the event is logged when the observer is registered.\<close>

definition call_opt :: "bool \<Rightarrow> event \<Rightarrow> event list \<Rightarrow> event list" where
  "call_opt registered ev evs = (if registered then evs @ [ev] else evs)"

text \<open>
  The state one wrapped object works on: the adapter's backing state, the shadow cache
  \<^verbatim>\<open>flagCache\<close>, the observer invocations so far, and the invocations that wait for a
  promise returned by \<^verbatim>\<open>adapter.set\<close> to settle (they run after the synchronous call).
\<close>

record 's interceptor =
  store :: 's
  flagCache :: "string \<rightharpoonup> PersistedFlagEntry"
  log :: "event list"
  deferred :: "event list"

text \<open>The values \<^verbatim>\<open>Date.now()\<close> returns at its call sites during one \<^verbatim>\<open>isEnabled\<close>:
  lines 122 and 123 (\<^verbatim>\<open>persistFlag\<close>), line 189 (shadow cache), inside \<^verbatim>\<open>adapter.get\<close>,
  and line 200 (adapter result).\<close>

record clock =
  now_persistedAt :: int
  now_expiresAt :: int
  now_cache :: int
  now_adapter :: int
  now_result :: int

definition persistFlag ::
  "'s StorageAdapter \<Rightarrow> string \<Rightarrow> bool \<Rightarrow> int \<Rightarrow> bool \<Rightarrow> string \<Rightarrow> bool \<Rightarrow> clock \<Rightarrow>
   's interceptor \<Rightarrow> unit completion \<times> 's interceptor" where
  "persistFlag ad storageKey v ttl on_persist flagName on_error clk st =
     (let entry = \<lparr> flag_value = v, persistedAt = now_persistedAt clk,
                    expiresAt = Some (now_expiresAt clk + ttl) \<rparr>
      in case adapter_set ad storageKey entry (store st) of
           (Throws e, s') \<Rightarrow>
             (Returns (), st\<lparr> store := s', log := call_opt on_error (OnError (to_Error e)) (log st) \<rparr>)
         | (Returns (Promise p), s') \<Rightarrow>
             (Returns (),
              st\<lparr> store := s',
                  deferred :=
                    (case p of
                       Returns _ \<Rightarrow> call_opt on_persist (OnPersist flagName v) (deferred st)
                     | Throws e \<Rightarrow> call_opt on_error (OnError (to_Error e)) (deferred st)) \<rparr>)
         | (Returns (Sync _), s') \<Rightarrow>
             (Returns (), st\<lparr> store := s', log := call_opt on_persist (OnPersist flagName v) (log st) \<rparr>))"

definition restoreFlag ::
  "'s StorageAdapter \<Rightarrow> string \<Rightarrow> bool \<Rightarrow> string \<Rightarrow> bool \<Rightarrow> clock \<Rightarrow>
   's interceptor \<Rightarrow> bool completion \<times> 's interceptor" where
  "restoreFlag ad storageKey on_restore flagName on_error clk st =
     (case valid_entry (now_cache clk) (flagCache st storageKey) of
        Some cached \<Rightarrow>
          (Returns (flag_value cached),
           st\<lparr> log := call_opt on_restore (OnRestore flagName (flag_value cached)) (log st) \<rparr>)
      | None \<Rightarrow>
          (case adapter_get ad storageKey (now_adapter clk) (store st) of
             (Throws e, s') \<Rightarrow>
               (Returns False,
                st\<lparr> store := s', log := call_opt on_error (OnError (to_Error e)) (log st) \<rparr>)
           | (Returns (Promise _), s') \<Rightarrow> (Returns False, st\<lparr> store := s' \<rparr>)
           | (Returns (Sync result), s') \<Rightarrow>
               (case valid_entry (now_result clk) result of
                  Some r \<Rightarrow>
                    (Returns (flag_value r),
                     st\<lparr> store := s',
                         log := call_opt on_restore (OnRestore flagName (flag_value r)) (log st) \<rparr>)
                | None \<Rightarrow> (Returns False, st\<lparr> store := s' \<rparr>))))"

text \<open>
  The \<^verbatim>\<open>isEnabled\<close> of the proxy. \<open>target\<close> is the wrapped evaluator's \<^verbatim>\<open>isEnabled\<close> at
  the time of the call. The \<^verbatim>\<open>try\<close> block holds both the evaluation and \<^verbatim>\<open>persistFlag\<close>,
  so a throw of either reaches \<^verbatim>\<open>restoreFlag\<close>; a throw of \<^verbatim>\<open>restoreFlag\<close> would leave
  the function.
\<close>

definition isEnabled ::
  "'s PersistenceOptions \<Rightarrow> (string \<Rightarrow> bool completion) \<Rightarrow> string \<Rightarrow> clock \<Rightarrow>
   's interceptor \<Rightarrow> bool completion \<times> 's interceptor" where
  "isEnabled opts target flagName clk st =
     (let storageKey = prefix_of opts @ flagName
      in case target flagName of
           Throws _ \<Rightarrow>
             restoreFlag (adapter opts) storageKey (onRestore opts) flagName (onError opts) clk st
         | Returns v \<Rightarrow>
             (case persistFlag (adapter opts) storageKey v (ttl_of opts) (onPersist opts) flagName
                     (onError opts) clk st of
                (Returns _, st') \<Rightarrow> (Returns v, st')
              | (Throws _, st') \<Rightarrow>
                  restoreFlag (adapter opts) storageKey (onRestore opts) flagName (onError opts)
                    clk st'))"

text \<open>The promise handlers attached by \<^verbatim>\<open>persistFlag\<close> run once the call has returned.\<close>

definition run_deferred :: "'s interceptor \<Rightarrow> 's interceptor" where
  "run_deferred st = st\<lparr> log := log st @ deferred st, deferred := [] \<rparr>"

section \<open>Platform functions used by the browser adapters\<close>

text \<open>
  \<^verbatim>\<open>JSON.parse\<close>, \<^verbatim>\<open>JSON.stringify\<close> and \<^verbatim>\<open>decodeURIComponent\<close> belong to the host, not
  to this repository: they are parameters. \<open>JSON_parse\<close> gives \<open>None\<close> where
  \<^verbatim>\<open>JSON.parse(raw)\<close> throws, or yields \<^verbatim>\<open>null\<close> so that reading \<^verbatim>\<open>entry.expiresAt\<close>
  throws: both land in the same \<^verbatim>\<open>catch\<close>. The cast \<^verbatim>\<open>as PersistedFlagEntry\<close> is taken at
  its word: a payload that parses is an entry. \<open>decodeURIComponent\<close> gives \<open>None\<close> where it
  throws.
\<close>

record js_builtins =
  JSON_parse :: "string \<Rightarrow> PersistedFlagEntry option"
  JSON_stringify :: "PersistedFlagEntry \<Rightarrow> string"
  decodeURIComponent :: "string \<Rightarrow> string option"

datatype warning =
    LocalStorageSaveFailed
  | CookieTooLarge string
  | CookieSaveFailed

section \<open>The localStorage adapter\<close>

text \<open>
  The sessionStorage adapter is the same code over \<^verbatim>\<open>window.sessionStorage\<close>; what is
  said here of one holds of the other.
  The host as the adapter sees it: whether \<^verbatim>\<open>window\<close> is defined, whether
  \<^verbatim>\<open>setItem(key, value)\<close> is accepted rather than throwing (quota, security), the stored
  items, and what was passed to \<^verbatim>\<open>console.warn\<close>. \<^verbatim>\<open>getItem\<close> and \<^verbatim>\<open>removeItem\<close> do
  not throw.
\<close>

record window =
  window_defined :: bool
  setItem_ok :: "string \<Rightarrow> string \<Rightarrow> bool"
  items :: "string \<rightharpoonup> string"
  console :: "warning list"

definition testKey :: string where
  "testKey = ''__flipflag_test__''"

text \<open>The probe writes and removes \<open>testKey\<close>: an item stored under that name is gone
  afterwards.\<close>

definition ls_isAvailable :: "window \<Rightarrow> bool \<times> window" where
  "ls_isAvailable w =
     (if \<not> window_defined w then (False, w)
      else if setItem_ok w testKey ''test'' then (True, w\<lparr> items := (items w)(testKey := None) \<rparr>)
      else (False, w))"

definition ls_remove :: "string \<Rightarrow> window \<Rightarrow> window" where
  "ls_remove key w =
     (case ls_isAvailable w of
        (False, w1) \<Rightarrow> w1
      | (True, w1) \<Rightarrow> w1\<lparr> items := (items w1)(key := None) \<rparr>)"

definition ls_get :: "js_builtins \<Rightarrow> string \<Rightarrow> int \<Rightarrow> window \<Rightarrow> PersistedFlagEntry option \<times> window" where
  "ls_get js key now w =
     (case ls_isAvailable w of
        (False, w1) \<Rightarrow> (None, w1)
      | (True, w1) \<Rightarrow>
          (case items w1 key of
             None \<Rightarrow> (None, w1)
           | Some raw \<Rightarrow>
               if raw = [] then (None, w1)
               else
                 (case JSON_parse js raw of
                    None \<Rightarrow> (None, ls_remove key w1)
                  | Some entry \<Rightarrow>
                      if adapter_expired now entry then (None, ls_remove key w1)
                      else (Some entry, w1))))"

definition ls_set :: "js_builtins \<Rightarrow> string \<Rightarrow> PersistedFlagEntry \<Rightarrow> window \<Rightarrow> window" where
  "ls_set js key entry w =
     (case ls_isAvailable w of
        (False, w1) \<Rightarrow> w1
      | (True, w1) \<Rightarrow>
          (let serialized = JSON_stringify js entry
           in if setItem_ok w1 key serialized then w1\<lparr> items := (items w1)(key \<mapsto> serialized) \<rparr>
              else w1\<lparr> console := console w1 @ [LocalStorageSaveFailed] \<rparr>))"

definition localStorageAdapter :: "js_builtins \<Rightarrow> window StorageAdapter" where
  "localStorageAdapter js = sync_adapter (ls_get js) (ls_set js) ls_remove ls_isAvailable"

section \<open>\<^verbatim>\<open>encodeURIComponent\<close>\<close>

text \<open>
  Strings are byte strings (UTF-8). \<^verbatim>\<open>encodeURIComponent\<close> keeps the letters, the digits
  and \<^verbatim>\<open>- _ . ! ~ * ' ( )\<close> and writes every other byte as \<^verbatim>\<open>%XX\<close>.
\<close>

definition unreserved :: "char \<Rightarrow> bool" where
  "unreserved c \<longleftrightarrow>
     c \<in> set (''ABCDEFGHIJKLMNOPQRSTUVWXYZabcdefghijklmnopqrstuvwxyz0123456789-_.!~*()'' @ [CHR 0x27])"

definition hex_digit :: "nat \<Rightarrow> char" where
  "hex_digit n = ''0123456789ABCDEF'' ! n"

definition encode_char :: "char \<Rightarrow> string" where
  "encode_char c =
     (if unreserved c then [c]
      else [CHR ''%'', hex_digit (of_char c div 16), hex_digit (of_char c mod 16)])"

definition encodeURIComponent :: "string \<Rightarrow> string" where
  "encodeURIComponent s = concat (map encode_char s)"

section \<open>The regular expression of \<^verbatim>\<open>getCookie\<close>\<close>

text \<open>
  \<^verbatim>\<open>getCookie\<close> builds \<^verbatim>\<open>new RegExp(`(^| )${encodeURIComponent(name)}=([^;]+)`)\<close>: the
  encoded name goes into the pattern as it is. Of the characters \<^verbatim>\<open>encodeURIComponent\<close>
  lets through, \<^verbatim>\<open>.\<close>, \<^verbatim>\<open>*\<close>, \<^verbatim>\<open>(\<close> and \<^verbatim>\<open>)\<close> are syntax of the pattern language and all
  others stand for themselves. The patterns that can arise are those of \<open>rx\<close>: the empty
  pattern, one character, \<^verbatim>\<open>.\<close>, \<^verbatim>\<open>[^;]\<close>, \<^verbatim>\<open>^\<close>, alternation, sequence, the greedy \<^verbatim>\<open>*\<close>,
  and a capturing group with its number.
\<close>

datatype rx = Eps | Lit char | Dot | NotSemi | Bol | Alt rx rx | Seq rx rx | Star rx | Grp nat rx

fun groups_in :: "rx \<Rightarrow> nat list" where
  "groups_in (Alt a b) = groups_in a @ groups_in b"
| "groups_in (Seq a b) = groups_in a @ groups_in b"
| "groups_in (Star r) = groups_in r"
| "groups_in (Grp n r) = n # groups_in r"
| "groups_in _ = []"

text \<open>A state of the matcher: the index reached, the rest of the subject, the captures.\<close>

type_synonym mstate = "nat \<times> string \<times> (nat \<Rightarrow> string option)"

definition clear_groups :: "nat list \<Rightarrow> (nat \<Rightarrow> string option) \<Rightarrow> (nat \<Rightarrow> string option)" where
  "clear_groups gs cp = (\<lambda>n. if n \<in> set gs then None else cp n)"

text \<open>
  The backtracking matcher of the language definition, as the list of the states in which
  a pattern can end from a given state, in the order in which backtracking tries them; the
  first one is the match. \<^verbatim>\<open>.\<close> takes any character but a line terminator. A \<^verbatim>\<open>*\<close> tries
  one more round first, with the captures of its groups cleared, gives up a round that
  consumed nothing, and takes no further round last.
\<close>

function ms :: "rx \<Rightarrow> mstate \<Rightarrow> mstate list" where
  "ms Eps x = [x]"
| "ms (Lit c) (i, s, cp) = (case s of [] \<Rightarrow> [] | a # t \<Rightarrow> if a = c then [(Suc i, t, cp)] else [])"
| "ms Dot (i, s, cp) =
     (case s of [] \<Rightarrow> [] | a # t \<Rightarrow> if a = CHR 0x0A \<or> a = CHR 0x0D then [] else [(Suc i, t, cp)])"
| "ms NotSemi (i, s, cp) =
     (case s of [] \<Rightarrow> [] | a # t \<Rightarrow> if a = CHR '';'' then [] else [(Suc i, t, cp)])"
| "ms Bol (i, s, cp) = (if i = 0 then [(i, s, cp)] else [])"
| "ms (Alt a b) x = ms a x @ ms b x"
| "ms (Seq a b) x = concat (map (ms b) (ms a x))"
| "ms (Grp n r) (i, s, cp) =
     map (\<lambda>(j, t, cp'). (j, t, cp'(n \<mapsto> take (j - i) s))) (ms r (i, s, cp))"
| "ms (Star r) (i, s, cp) =
     concat (map (ms (Star r))
       (filter (\<lambda>(j, t, cp'). length t < length s) (ms r (i, s, clear_groups (groups_in r) cp))))
     @ [(i, s, cp)]"
  by pat_completeness auto
termination
  by (relation "inv_image (less_than <*lex*> less_than) (\<lambda>(r, (i, s, cp)). (size r, length s))") auto

text \<open>\<^verbatim>\<open>subject.match(re)\<close> without the \<^verbatim>\<open>g\<close> flag: the first match from the leftmost start.\<close>

fun search :: "rx \<Rightarrow> nat \<Rightarrow> string \<Rightarrow> mstate option" where
  "search r i [] = (case ms r (i, [], Map.empty) of [] \<Rightarrow> None | y # _ \<Rightarrow> Some y)"
| "search r i (a # t) =
     (case ms r (i, a # t, Map.empty) of [] \<Rightarrow> search r (Suc i) t | y # _ \<Rightarrow> Some y)"

definition seq_of :: "rx list \<Rightarrow> rx" where
  "seq_of ts = foldr Seq ts Eps"

text \<open>
  Reading the encoded name as pattern source, with a stack of the groups that are open, each
  with its number and its terms so far (last first). \<^verbatim>\<open>(\<close> opens the next group, \<^verbatim>\<open>)\<close> closes
  the innermost, \<^verbatim>\<open>*\<close> repeats the term before it. \<open>None\<close> is the \<^verbatim>\<open>SyntaxError\<close> of
  \<^verbatim>\<open>new RegExp\<close>: a \<^verbatim>\<open>)\<close> with no group open, a \<^verbatim>\<open>*\<close> with nothing to repeat (first in a
  group, or after another \<^verbatim>\<open>*\<close>), a group left open. The result is the terms and the next
  free group number.
\<close>

fun parse_terms :: "string \<Rightarrow> (nat \<times> rx list) list \<Rightarrow> nat \<Rightarrow> (rx list \<times> nat) option" where
  "parse_terms [] stack n = (case stack of [(g, ts)] \<Rightarrow> Some (rev ts, n) | _ \<Rightarrow> None)"
| "parse_terms (c # cs) stack n =
     (if c = CHR ''('' then parse_terms cs ((n, []) # stack) (Suc n)
      else if c = CHR '')'' then
        (case stack of
           (g, ts) # (g', ts') # rest \<Rightarrow>
             parse_terms cs ((g', Grp g (seq_of (rev ts)) # ts') # rest) n
         | _ \<Rightarrow> None)
      else if c = CHR ''*'' then
        (case stack of
           (g, t # ts) # rest \<Rightarrow>
             (case t of Star _ \<Rightarrow> None | _ \<Rightarrow> parse_terms cs ((g, Star t # ts) # rest) n)
         | _ \<Rightarrow> None)
      else
        (case stack of
           (g, ts) # rest \<Rightarrow>
             parse_terms cs ((g, (if c = CHR ''.'' then Dot else Lit c) # ts) # rest) n
         | [] \<Rightarrow> None))"

text \<open>
  The whole pattern: group 1 is \<^verbatim>\<open>(^| )\<close>, the name's own groups follow from 2 on (a \<^verbatim>\<open>*\<close>
  at the head of the name repeats group 1), and the group of \<^verbatim>\<open>([^;]+)\<close> takes the next
  number: 2 when the name has no group of its own.
\<close>

definition cookie_pattern :: "string \<Rightarrow> rx option" where
  "cookie_pattern enc =
     (case parse_terms enc [(0, [Grp 1 (Alt Bol (Lit CHR '' ''))])] 2 of
        None \<Rightarrow> None
      | Some (ts, n) \<Rightarrow>
          Some (seq_of (ts @ [Lit CHR ''='', Grp n (Seq NotSemi (Star NotSemi))])))"

section \<open>The cookie adapter\<close>

datatype same_site = Strict | Lax | NoneSite

record CookieAdapterOptions =
  path :: "string option"
  domain :: "string option"
  secure :: "bool option"
  sameSite :: "same_site option"

text \<open>
  A cookie as an assignment to \<^verbatim>\<open>document.cookie\<close> gives it: name, value and attributes.
  \<open>c_path\<close> and \<open>c_domain\<close> are \<open>None\<close> where the assignment has no such attribute (the
  browser then takes the document's default path, and makes the cookie host-only).
  \<open>c_expires\<close> is the timestamp behind the \<^verbatim>\<open>expires=\<close> attribute.
\<close>

record cookie =
  c_name :: string
  c_value :: string
  c_path :: "string option"
  c_domain :: "string option"
  c_secure :: bool
  c_sameSite :: "same_site option"
  c_expires :: "int option"

text \<open>
  The host as the adapter sees it: whether \<^verbatim>\<open>document\<close> is defined, whether touching
  \<^verbatim>\<open>document.cookie\<close> throws, which assignments the browser accepts (cookies switched off,
  a \<^verbatim>\<open>secure\<close> cookie on a page without https, a foreign domain), which cookies it lists for
  this document (path and domain match), the document's default path, whether the page was
  loaded over https, the cookies in the order of their creation, and the warnings.
  The browser's clock is not part of the model: a cookie whose \<^verbatim>\<open>expires\<close> lies at or before
  the epoch is expired, any other stays until it is replaced or expired by an assignment.
\<close>

record document =
  document_defined :: bool
  cookie_throws :: bool
  accepts :: "cookie \<Rightarrow> bool"
  visible :: "cookie \<Rightarrow> bool"
  default_path :: string
  https :: bool
  jar :: "cookie list"
  doc_console :: "warning list"

definition cookie_path :: "document \<Rightarrow> cookie \<Rightarrow> string" where
  "cookie_path d c = (case c_path c of None \<Rightarrow> default_path d | Some p \<Rightarrow> p)"

text \<open>An assignment replaces or expires the cookie of the same name, domain and path.\<close>

definition same_cookie :: "document \<Rightarrow> cookie \<Rightarrow> cookie \<Rightarrow> bool" where
  "same_cookie d a b \<longleftrightarrow>
     c_name a = c_name b \<and> c_domain a = c_domain b \<and> cookie_path d a = cookie_path d b"

definition cookie_expired :: "cookie \<Rightarrow> bool" where
  "cookie_expired c = (case c_expires c of None \<Rightarrow> False | Some t \<Rightarrow> t \<le> 0)"

text \<open>\<^verbatim>\<open>document.cookie = ...\<close>: a replaced cookie keeps its place, a new one comes last.\<close>

definition assign_cookie :: "cookie \<Rightarrow> document \<Rightarrow> document" where
  "assign_cookie c d =
     (if \<not> accepts d c then d
      else if cookie_expired c then d\<lparr> jar := filter (\<lambda>x. \<not> same_cookie d x c) (jar d) \<rparr>
      else if list_ex (\<lambda>x. same_cookie d x c) (jar d)
        then d\<lparr> jar := map (\<lambda>x. if same_cookie d x c then c else x) (jar d) \<rparr>
      else d\<lparr> jar := jar d @ [c] \<rparr>)"

fun join_cookies :: "string list \<Rightarrow> string" where
  "join_cookies [] = []"
| "join_cookies [x] = x"
| "join_cookies (x # y # zs) = x @ ''; '' @ join_cookies (y # zs)"

text \<open>
  Reading \<^verbatim>\<open>document.cookie\<close>: the listed cookies as \<^verbatim>\<open>name=value\<close>, joined by \<^verbatim>\<open>; \<close>,
  longer paths first and, among paths of one length, earlier cookies first.
\<close>

definition document_cookie :: "document \<Rightarrow> string" where
  "document_cookie d =
     join_cookies
       (map (\<lambda>c. c_name c @ ''='' @ c_value c)
          (sort_key (\<lambda>c. - int (length (cookie_path d c))) (filter (visible d) (jar d))))"

fun starts_with :: "string \<Rightarrow> string \<Rightarrow> bool" where
  "starts_with s [] = True"
| "starts_with [] (p # ps) = False"
| "starts_with (a # s) (p # ps) = (a = p \<and> starts_with s ps)"

fun string_includes :: "string \<Rightarrow> string \<Rightarrow> bool" where
  "string_includes [] p = (p = [])"
| "string_includes (a # s) p = (starts_with (a # s) p \<or> string_includes s p)"

definition path_of :: "('x) CookieAdapterOptions_scheme \<Rightarrow> string" where
  "path_of options = (case path options of None \<Rightarrow> ''/'' | Some p \<Rightarrow> p)"

definition secure_of :: "('x) CookieAdapterOptions_scheme \<Rightarrow> document \<Rightarrow> bool" where
  "secure_of options d = (case secure options of None \<Rightarrow> https d | Some b \<Rightarrow> b)"

definition sameSite_of :: "('x) CookieAdapterOptions_scheme \<Rightarrow> same_site" where
  "sameSite_of options = (case sameSite options of None \<Rightarrow> Lax | Some x \<Rightarrow> x)"

text \<open>
  \<^verbatim>\<open>match ? decodeURIComponent(match[2]) : undefined\<close>. \<^verbatim>\<open>match[2]\<close> is the second group of
  the pattern: the value, unless the name brought a group of its own; a group that took no
  part in the match is \<^verbatim>\<open>undefined\<close>, which \<^verbatim>\<open>decodeURIComponent\<close> reads as the string
  \<^verbatim>\<open>undefined\<close>.
\<close>

definition getCookie :: "js_builtins \<Rightarrow> string \<Rightarrow> document \<Rightarrow> string option completion" where
  "getCookie js name d =
     (if \<not> document_defined d then Returns None
      else
        (case cookie_pattern (encodeURIComponent name) of
           None \<Rightarrow> Throws (ErrorObj ''SyntaxError'')
         | Some re \<Rightarrow>
             (case search re 0 (document_cookie d) of
                None \<Rightarrow> Returns None
              | Some (j, t, groups) \<Rightarrow>
                  (case decodeURIComponent js
                          (case groups 2 of None \<Rightarrow> ''undefined'' | Some g \<Rightarrow> g) of
                     None \<Rightarrow> Throws (ErrorObj ''URIError'')
                   | Some v \<Rightarrow> Returns (Some v)))))"

text \<open>The cookie \<^verbatim>\<open>setCookie\<close> assigns: the domain option is written when it is truthy, the
  \<^verbatim>\<open>expires\<close> attribute when \<^verbatim>\<open>expiresAt\<close> is.\<close>

definition written_cookie ::
  "CookieAdapterOptions \<Rightarrow> string \<Rightarrow> string \<Rightarrow> int option \<Rightarrow> document \<Rightarrow> cookie" where
  "written_cookie options name v expires d =
     \<lparr> c_name = encodeURIComponent name,
       c_value = encodeURIComponent v,
       c_path = Some (path_of options),
       c_domain = (case domain options of None \<Rightarrow> None
                   | Some dm \<Rightarrow> if dm = [] then None else Some dm),
       c_secure = secure_of options d,
       c_sameSite = Some (sameSite_of options),
       c_expires = (if truthy expires then expires else None) \<rparr>"

definition setCookie ::
  "CookieAdapterOptions \<Rightarrow> string \<Rightarrow> string \<Rightarrow> int option \<Rightarrow> document \<Rightarrow> document" where
  "setCookie options name v expires d =
     (if \<not> document_defined d then d
      else assign_cookie (written_cookie options name v expires d) d)"

text \<open>The cookie \<^verbatim>\<open>deleteCookie\<close> assigns: the name and the adapter's path, no domain, and
  the epoch as \<^verbatim>\<open>expires\<close>.\<close>

definition expiring_cookie :: "CookieAdapterOptions \<Rightarrow> string \<Rightarrow> cookie" where
  "expiring_cookie options name =
     \<lparr> c_name = encodeURIComponent name, c_value = [], c_path = Some (path_of options),
       c_domain = None, c_secure = False, c_sameSite = None, c_expires = Some 0 \<rparr>"

definition deleteCookie :: "CookieAdapterOptions \<Rightarrow> string \<Rightarrow> document \<Rightarrow> document" where
  "deleteCookie options name d =
     (if \<not> document_defined d then d else assign_cookie (expiring_cookie options name) d)"

text \<open>
  The probe assigns \<^verbatim>\<open>__flipflag_test__=1\<close>, looks for that name anywhere in
  \<^verbatim>\<open>document.cookie\<close>, and assigns the same cookie again with the epoch as \<^verbatim>\<open>expires\<close>.
\<close>

definition probe_cookie :: "string \<Rightarrow> int option \<Rightarrow> cookie" where
  "probe_cookie v expires =
     \<lparr> c_name = testKey, c_value = v, c_path = None, c_domain = None, c_secure = False,
       c_sameSite = None, c_expires = expires \<rparr>"

definition cookie_isAvailable :: "document \<Rightarrow> bool \<times> document" where
  "cookie_isAvailable d =
     (if \<not> document_defined d then (False, d)
      else if cookie_throws d then (False, d)
      else
        (let d1 = assign_cookie (probe_cookie ''1'' None) d;
             result = string_includes (document_cookie d1) testKey;
             d2 = assign_cookie (probe_cookie [] (Some 0)) d1
         in (result, d2)))"

definition cookie_remove :: "CookieAdapterOptions \<Rightarrow> string \<Rightarrow> document \<Rightarrow> document" where
  "cookie_remove options key d =
     (case cookie_isAvailable d of
        (False, d1) \<Rightarrow> d1
      | (True, d1) \<Rightarrow> deleteCookie options key d1)"

definition cookie_get ::
  "js_builtins \<Rightarrow> CookieAdapterOptions \<Rightarrow> string \<Rightarrow> int \<Rightarrow> document \<Rightarrow>
   PersistedFlagEntry option \<times> document" where
  "cookie_get js options key now d =
     (case cookie_isAvailable d of
        (False, d1) \<Rightarrow> (None, d1)
      | (True, d1) \<Rightarrow>
          (case getCookie js key d1 of
             Throws _ \<Rightarrow> (None, cookie_remove options key d1)
           | Returns None \<Rightarrow> (None, d1)
           | Returns (Some raw) \<Rightarrow>
               if raw = [] then (None, d1)
               else
                 (case JSON_parse js raw of
                    None \<Rightarrow> (None, cookie_remove options key d1)
                  | Some entry \<Rightarrow>
                      if adapter_expired now entry then (None, cookie_remove options key d1)
                      else (Some entry, d1))))"

definition cookie_set ::
  "js_builtins \<Rightarrow> CookieAdapterOptions \<Rightarrow> string \<Rightarrow> PersistedFlagEntry \<Rightarrow> document \<Rightarrow> document" where
  "cookie_set js options key entry d =
     (case cookie_isAvailable d of
        (False, d1) \<Rightarrow> d1
      | (True, d1) \<Rightarrow>
          (let serialized = JSON_stringify js entry
           in if length serialized > 4000
              then d1\<lparr> doc_console := doc_console d1 @ [CookieTooLarge key] \<rparr>
              else setCookie options key serialized (expiresAt entry) d1))"

definition cookieAdapter :: "js_builtins \<Rightarrow> CookieAdapterOptions \<Rightarrow> document StorageAdapter" where
  "cookieAdapter js options =
     sync_adapter (cookie_get js options) (cookie_set js options) (cookie_remove options)
       cookie_isAvailable"

section \<open>Initialisation: pre-warming the shadow cache\<close>

text \<open>
  \<^verbatim>\<open>result instanceof Promise ? await result : result\<close> inside a \<^verbatim>\<open>try\<close>: what the
  continuation sees once the result has settled.
\<close>

fun settled :: "'a maybe_promise completion \<Rightarrow> 'a completion" where
  "settled (Throws e) = Throws e"
| "settled (Returns (Sync x)) = Returns x"
| "settled (Returns (Promise c)) = c"

text \<open>One element of \<^verbatim>\<open>loadPromises\<close> (lines 48 to 59).\<close>

definition preload_flag ::
  "'s StorageAdapter \<Rightarrow> string \<Rightarrow> bool \<Rightarrow> clock \<Rightarrow> string \<Rightarrow> 's interceptor \<Rightarrow> 's interceptor" where
  "preload_flag ad pre on_error clk flagName st =
     (let storageKey = pre @ flagName
      in case adapter_get ad storageKey (now_adapter clk) (store st) of
           (r, s') \<Rightarrow>
             (case settled r of
                Throws e \<Rightarrow>
                  st\<lparr> store := s', log := call_opt on_error (OnError (to_Error e)) (log st) \<rparr>
              | Returns entry \<Rightarrow>
                  (case valid_entry (now_result clk) entry of
                     Some e \<Rightarrow> st\<lparr> store := s', flagCache := (flagCache st)(storageKey \<mapsto> e) \<rparr>
                   | None \<Rightarrow> st\<lparr> store := s' \<rparr>)))"

definition persistFlagAsync ::
  "'s StorageAdapter \<Rightarrow> string \<Rightarrow> bool \<Rightarrow> int \<Rightarrow> bool \<Rightarrow> string \<Rightarrow> bool \<Rightarrow> clock \<Rightarrow>
   's interceptor \<Rightarrow> 's interceptor" where
  "persistFlagAsync ad storageKey v ttl on_persist flagName on_error clk st =
     (let entry = \<lparr> flag_value = v, persistedAt = now_persistedAt clk,
                    expiresAt = Some (now_expiresAt clk + ttl) \<rparr>
      in case adapter_set ad storageKey entry (store st) of
           (r, s') \<Rightarrow>
             (case settled r of
                Throws e \<Rightarrow>
                  st\<lparr> store := s', log := call_opt on_error (OnError (to_Error e)) (log st) \<rparr>
              | Returns _ \<Rightarrow>
                  st\<lparr> store := s',
                      flagCache := (flagCache st)(storageKey \<mapsto> entry),
                      log := call_opt on_persist (OnPersist flagName v) (log st) \<rparr>))"

text \<open>
  The \<^verbatim>\<open>init\<close> of the proxy. \<open>target_init\<close> is how \<^verbatim>\<open>await target.init()\<close> ends;
  \<open>featuresFlags\<close> is the evaluator's listing after it, \<open>None\<close> when it is missing or not an
  object, and per flag \<open>Some b\<close> for \<^verbatim>\<open>{enabled: b}\<close> with a boolean \<open>b\<close>, \<open>None\<close> otherwise.
  The flags are taken in the listing's order and every promise is taken to settle before
  the next flag is started; every flag reads the same clock values.
\<close>

definition init ::
  "'s PersistenceOptions \<Rightarrow> unit completion \<Rightarrow> (string \<times> bool option) list option \<Rightarrow> clock \<Rightarrow>
   's interceptor \<Rightarrow> unit completion \<times> 's interceptor" where
  "init opts target_init featuresFlags clk st =
     (case target_init of
        Throws e \<Rightarrow> (Throws e, st)
      | Returns _ \<Rightarrow>
          (case featuresFlags of
             None \<Rightarrow> (Returns (), st)
           | Some ff \<Rightarrow>
               (let st1 = fold (preload_flag (adapter opts) (prefix_of opts) (onError opts) clk)
                            (map fst ff) st;
                    st2 = fold (\<lambda>(flagName, flag) s.
                                  case flag of
                                    None \<Rightarrow> s
                                  | Some en \<Rightarrow>
                                      persistFlagAsync (adapter opts) (prefix_of opts @ flagName) en
                                        (ttl_of opts) (onPersist opts) flagName (onError opts) clk s)
                            ff st1
                in (Returns (), st2))))"

text \<open>A freshly wrapped object: nothing cached, nothing observed yet.\<close>

definition withPersistence :: "'s \<Rightarrow> 's interceptor" where
  "withPersistence s = \<lparr> store = s, flagCache = Map.empty, log = [], deferred = [] \<rparr>"

section \<open>Concrete entries, hosts and adapters for the runs\<close>

text \<open>A codec and hosts for the concrete runs below: the payload \<open>''E''\<close> stands for the
  serialisation of one fixed entry, every other payload fails to parse.\<close>

definition entry0 :: PersistedFlagEntry where
  "entry0 = \<lparr> flag_value = True, persistedAt = 0, expiresAt = Some 0 \<rparr>"

definition entry1000 :: PersistedFlagEntry where
  "entry1000 = \<lparr> flag_value = True, persistedAt = 0, expiresAt = Some 1000 \<rparr>"

definition js_for :: "PersistedFlagEntry \<Rightarrow> js_builtins" where
  "js_for e =
     \<lparr> JSON_parse = (\<lambda>raw. if raw = ''E'' then Some e else None),
       JSON_stringify = (\<lambda>_. ''E''),
       decodeURIComponent = (\<lambda>s. Some s) \<rparr>"

definition window_with :: "(string \<rightharpoonup> string) \<Rightarrow> window" where
  "window_with its =
     \<lparr> window_defined = True, setItem_ok = (\<lambda>_ _. True), items = its, console = [] \<rparr>"

definition clock_at :: "int \<Rightarrow> clock" where
  "clock_at t =
     \<lparr> now_persistedAt = t, now_expiresAt = t, now_cache = t, now_adapter = t, now_result = t \<rparr>"

text \<open>A document that accepts and lists every cookie, at the root path.\<close>

definition doc_with :: "cookie list \<Rightarrow> document" where
  "doc_with j =
     \<lparr> document_defined = True, cookie_throws = False, accepts = (\<lambda>_. True),
       visible = (\<lambda>_. True), default_path = ''/'', https = False, jar = j, doc_console = [] \<rparr>"

text \<open>A host-only cookie on the path \<^verbatim>\<open>/\<close>, as the adapter writes it with its default
  options on a page without https.\<close>

definition cookie_of :: "string \<Rightarrow> string \<Rightarrow> cookie" where
  "cookie_of n v =
     \<lparr> c_name = n, c_value = v, c_path = Some ''/'', c_domain = None, c_secure = False,
       c_sameSite = Some Lax, c_expires = None \<rparr>"

definition default_cookie_options :: CookieAdapterOptions where
  "default_cookie_options = \<lparr> path = None, domain = None, secure = None, sameSite = None \<rparr>"

text \<open>Hosts whose \<^verbatim>\<open>JSON.stringify\<close> yields 4500 characters for every entry; for the second
  the payload \<open>''E''\<close> parses to the given entry.\<close>

definition js_big :: js_builtins where
  "js_big =
     \<lparr> JSON_parse = (\<lambda>raw. None),
       JSON_stringify = (\<lambda>_. replicate 4500 (CHR ''x'')),
       decodeURIComponent = (\<lambda>s. Some s) \<rparr>"

definition js_big_for :: "PersistedFlagEntry \<Rightarrow> js_builtins" where
  "js_big_for e =
     \<lparr> JSON_parse = (\<lambda>raw. if raw = ''E'' then Some e else None),
       JSON_stringify = (\<lambda>_. replicate 4500 (CHR ''x'')),
       decodeURIComponent = (\<lambda>s. Some s) \<rparr>"


text \<open>Options with every observer registered and a TTL of one second.\<close>

definition options_for :: "'s StorageAdapter \<Rightarrow> 's PersistenceOptions" where
  "options_for ad =
     \<lparr> adapter = ad, prefix = None, ttlMs = Some 1000,
       onRestore = True, onPersist = True, onError = True \<rparr>"

text \<open>
  Two adapters of the kind the interface admits, for the runs that need them: one whose
  \<open>get\<close> and \<open>set\<close> return promises over an in-memory map and which counts the calls of
  its \<open>get\<close>, and one whose every method throws.
\<close>

definition asyncAdapter :: "(nat \<times> memory_storage) StorageAdapter" where
  "asyncAdapter =
     \<lparr> adapter_get = (\<lambda>key now (n, m).
         (Returns (Promise (Returns (fst (memory_get key now m)))), (Suc n, snd (memory_get key now m)))),
       adapter_set = (\<lambda>key entry (n, m). (Returns (Promise (Returns ())), (n, memory_set key entry m))),
       adapter_remove = (\<lambda>key (n, m). (Returns (Promise (Returns ())), (n, memory_remove key m))),
       isAvailable = (\<lambda>s. (True, s)) \<rparr>"

definition throwingAdapter :: "unit StorageAdapter" where
  "throwingAdapter =
     \<lparr> adapter_get = (\<lambda>key now s. (Throws (NonError ''storage failure''), s)),
       adapter_set = (\<lambda>key entry s. (Throws (NonError ''storage failure''), s)),
       adapter_remove = (\<lambda>key s. (Throws (NonError ''storage failure''), s)),
       isAvailable = (\<lambda>s. (False, s)) \<rparr>"

definition evaluator_throws :: "string \<Rightarrow> bool completion" where
  "evaluator_throws flagName = Throws (ErrorObj ''evaluator unavailable'')"

definition evaluator_returns :: "bool \<Rightarrow> string \<Rightarrow> bool completion" where
  "evaluator_returns v flagName = Returns v"

text \<open>A host without \<^verbatim>\<open>window\<close>.\<close>

definition no_window :: window where
  "no_window = \<lparr> window_defined = False, setItem_ok = (\<lambda>_ _. False), items = Map.empty, console = [] \<rparr>"

text \<open>
  An asynchronous adapter that holds \<open>{value: true, expiresAt: 5000}\<close> for \<open>feature-x\<close>,
  after \<open>init\<close> at time 100 with an evaluator that lists \<open>feature-x\<close> as enabled.
\<close>

definition prewarmed :: "(nat \<times> memory_storage) interceptor" where
  "prewarmed =
     snd (init (options_for asyncAdapter) (Returns ()) (Some [(''feature-x'', Some True)])
            (clock_at 100)
            (withPersistence
               (0, [''flipflag:feature-x'' \<mapsto>
                      \<lparr> flag_value = True, persistedAt = 0, expiresAt = Some 5000 \<rparr>])))"

text \<open>
  A memory adapter after \<open>init\<close> at time 0 with an evaluator that lists \<open>f\<close> as disabled,
  and the same after a read at time 10 for which the evaluator answers \<open>true\<close>.
\<close>

definition after_init :: "memory_storage interceptor" where
  "after_init =
     snd (init (options_for memoryAdapter) (Returns ()) (Some [(''f'', Some False)]) (clock_at 0)
            (withPersistence Map.empty))"

definition after_read :: "memory_storage interceptor" where
  "after_read =
     snd (isEnabled (options_for memoryAdapter) (evaluator_returns True) ''f'' (clock_at 10) after_init)"

section \<open>Facts about the adapters\<close>

lemma adapter_expired_iff:
  "adapter_expired now e \<longleftrightarrow> (\<exists>x. expiresAt e = Some x \<and> x \<noteq> 0 \<and> x < now)"
  by (auto simp: adapter_expired_def split: option.splits)

lemma entry_valid_iff:
  "entry_valid now e \<longleftrightarrow>
     (expiresAt e = None \<or> expiresAt e = Some 0 \<or> (\<exists>x. expiresAt e = Some x \<and> now < x))"
  by (auto simp: entry_valid_def split: option.splits)

lemma memory_get_stored:
  "storage key = Some e \<Longrightarrow>
   memory_get key now storage =
     (if adapter_expired now e then (None, storage(key := None)) else (Some e, storage))"
  by (simp add: memory_get_def)

lemma ls_isAvailable_True:
  "window_defined w \<Longrightarrow> setItem_ok w testKey ''test'' \<Longrightarrow>
   ls_isAvailable w = (True, w\<lparr> items := (items w)(testKey := None) \<rparr>)"
  by (simp add: ls_isAvailable_def)

lemma ls_get_stored:
  assumes "window_defined w" "setItem_ok w testKey ''test''" "key \<noteq> testKey"
    "items w key = Some raw" "raw \<noteq> []" "JSON_parse js raw = Some e"
  shows "ls_get js key now w =
     (if adapter_expired now e then (None, w\<lparr> items := (items w)(testKey := None, key := None) \<rparr>)
      else (Some e, w\<lparr> items := (items w)(testKey := None) \<rparr>))"
  using assms by (simp add: ls_get_def ls_isAvailable_def ls_remove_def)

lemma ls_get_probe_key:
  assumes "window_defined w" "setItem_ok w testKey ''test''"
  shows "ls_get js testKey now w = (None, w\<lparr> items := (items w)(testKey := None) \<rparr>)"
  using assms by (simp add: ls_get_def ls_isAvailable_def)

lemma restoreFlag_memory:
  assumes "flagCache st key = None" "store st key = Some e"
  shows "fst (restoreFlag memoryAdapter key r f oe clk st) =
     Returns (if \<not> adapter_expired (now_adapter clk) e \<and> entry_valid (now_result clk) e
              then flag_value e else False)"
  using assms
  by (simp add: restoreFlag_def memoryAdapter_def sync_adapter_def memory_get_def valid_entry_def)

lemma localStorageAdapter_get:
  "adapter_get (localStorageAdapter js) key now w =
     (Returns (Sync (fst (ls_get js key now w))), snd (ls_get js key now w))"
  by (simp add: localStorageAdapter_def sync_adapter_def)

lemma restoreFlag_sync_result:
  assumes "valid_entry (now_cache clk) (flagCache st key) = None"
    and "fst (adapter_get ad key (now_adapter clk) (store st)) = Returns (Sync result)"
  shows "fst (restoreFlag ad key r f oe clk st) =
     Returns (case valid_entry (now_result clk) result of None \<Rightarrow> False | Some e \<Rightarrow> flag_value e)"
  using assms
  by (cases "adapter_get ad key (now_adapter clk) (store st)")
    (simp add: restoreFlag_def split: option.splits)

lemma preload_flag_cache:
  assumes "settled (fst (adapter_get ad (pre @ f) (now_adapter clk) (store st))) = Returns result"
  shows "flagCache (preload_flag ad pre oe clk f st) (pre @ f) =
     (case valid_entry (now_result clk) result of None \<Rightarrow> flagCache st (pre @ f) | Some e \<Rightarrow> Some e)"
  using assms
  by (cases "adapter_get ad (pre @ f) (now_adapter clk) (store st)")
    (simp add: preload_flag_def Let_def split: option.splits)

section \<open>The expiry rule\<close>

text \<open>
  C2, as the specification has it: an entry is valid iff \<open>expiresAt\<close> is absent or the
  current time is strictly less than it, and an adapter \<open>get\<close> at a time equal to
  \<open>expiresAt\<close> returns absent. Both halves fail on the code: an entry whose \<open>expiresAt\<close> is
  \<open>0\<close> is valid at time \<open>5\<close>, and the memory adapter's \<open>get\<close> at time \<open>1000\<close> returns an
  entry whose \<open>expiresAt\<close> is \<open>1000\<close>.
\<close>

theorem C2_counterexample:
  "entry_valid 5 entry0 \<and> expiresAt entry0 = Some 0 \<and> (0::int) < 5 \<and>
   fst (memory_get ''flipflag:f'' 1000 [''flipflag:f'' \<mapsto> entry1000]) = Some entry1000 \<and>
   expiresAt entry1000 = Some 1000"
  by (simp add: entry_valid_def entry0_def entry1000_def memory_get_def adapter_expired_def)

text \<open>
  C2, amended. Who tests an entry decides what is valid.
  The interceptor treats an entry as valid iff its \<open>expiresAt\<close> is absent, is \<open>0\<close>, or the
  current time is strictly less than it. This is the test \<open>restoreFlag\<close> applies to the
  entry of the shadow cache (whose value it returns when valid, whatever the adapter) and,
  when the shadow cache has no valid entry, to the entry a synchronous adapter returns
  (whose value it returns when valid, \<open>false\<close> otherwise), and the test the pre-load of
  \<open>init\<close> applies to the entry the adapter yields: it puts the entry into the shadow cache
  when it is valid and leaves the cache as it is otherwise.
  An adapter's \<open>get\<close> returns absent iff \<open>expiresAt\<close> is non-zero and strictly less than the
  current time, so at a time equal to \<open>expiresAt\<close> it still returns the entry. This holds
  for the memory adapter under every key, and for the localStorage adapter on a store that
  passes the availability probe and holds a non-empty payload that parses to the entry,
  under every key but the probe's own \<^verbatim>\<open>__flipflag_test__\<close>, under which \<open>get\<close> returns
  absent whatever the entry.
  A restoration through the memory adapter or through the localStorage adapter, with one
  clock reading for the whole call and nothing in the shadow cache, passes both tests and
  returns the entry's value iff \<open>expiresAt\<close> is absent, is \<open>0\<close>, or the current time is
  strictly less than it, and \<open>false\<close> otherwise.
\<close>

theorem C2_expiry_rule:
  "(entry_valid now e \<longleftrightarrow>
      (expiresAt e = None \<or> expiresAt e = Some 0 \<or> (\<exists>x. expiresAt e = Some x \<and> now < x))) \<and>
   (fst (memory_get key now (storage(key \<mapsto> e))) =
      (if \<exists>x. expiresAt e = Some x \<and> x \<noteq> 0 \<and> x < now then None else Some e)) \<and>
   (window_defined w \<and> setItem_ok w testKey ''test'' \<and> key \<noteq> testKey \<and>
    items w key = Some raw \<and> raw \<noteq> [] \<and> JSON_parse js raw = Some e \<longrightarrow>
      fst (ls_get js key now w) =
        (if \<exists>x. expiresAt e = Some x \<and> x \<noteq> 0 \<and> x < now then None else Some e)) \<and>
   (flagCache st key = None \<and> store st key = Some e \<longrightarrow>
      fst (restoreFlag memoryAdapter key r f oe (clock_at now) st) =
        Returns (if expiresAt e = None \<or> expiresAt e = Some 0 \<or> (\<exists>x. expiresAt e = Some x \<and> now < x)
                 then flag_value e else False)) \<and>
   (window_defined w \<and> setItem_ok w testKey ''test'' \<longrightarrow> fst (ls_get js testKey now w) = None) \<and>
   (window_defined w \<and> setItem_ok w testKey ''test'' \<and> key \<noteq> testKey \<and>
    items w key = Some raw \<and> raw \<noteq> [] \<and> JSON_parse js raw = Some e \<and>
    flagCache st_ls key = None \<and> store st_ls = w \<longrightarrow>
      fst (restoreFlag (localStorageAdapter js) key r f oe (clock_at now) st_ls) =
        Returns (if expiresAt e = None \<or> expiresAt e = Some 0 \<or> (\<exists>x. expiresAt e = Some x \<and> now < x)
                 then flag_value e else False)) \<and>
   (flagCache st_a key = Some e \<and>
    (expiresAt e = None \<or> expiresAt e = Some 0 \<or> (\<exists>x. expiresAt e = Some x \<and> now_cache clk < x)) \<longrightarrow>
      fst (restoreFlag ad key r f oe clk st_a) = Returns (flag_value e)) \<and>
   (valid_entry (now_cache clk) (flagCache st_a key) = None \<and>
    fst (adapter_get ad key (now_adapter clk) (store st_a)) = Returns (Sync (Some e)) \<longrightarrow>
      fst (restoreFlag ad key r f oe clk st_a) =
        Returns (if expiresAt e = None \<or> expiresAt e = Some 0 \<or>
                    (\<exists>x. expiresAt e = Some x \<and> now_result clk < x)
                 then flag_value e else False)) \<and>
   (settled (fst (adapter_get ad (pre @ f) (now_adapter clk) (store st_a))) = Returns (Some e) \<longrightarrow>
      flagCache (preload_flag ad pre oe clk f st_a) (pre @ f) =
        (if expiresAt e = None \<or> expiresAt e = Some 0 \<or>
            (\<exists>x. expiresAt e = Some x \<and> now_result clk < x)
         then Some e else flagCache st_a (pre @ f)))"
proof -
  have a: "entry_valid t e \<longleftrightarrow>
      (expiresAt e = None \<or> expiresAt e = Some 0 \<or> (\<exists>x. expiresAt e = Some x \<and> t < x))" for t
    by (rule entry_valid_iff)
  have both: "\<not> adapter_expired now e \<and> entry_valid now e \<longleftrightarrow>
      (expiresAt e = None \<or> expiresAt e = Some 0 \<or> (\<exists>x. expiresAt e = Some x \<and> now < x))"
    by (auto simp: adapter_expired_iff entry_valid_iff)
  have b: "fst (memory_get key now (storage(key \<mapsto> e))) =
      (if \<exists>x. expiresAt e = Some x \<and> x \<noteq> 0 \<and> x < now then None else Some e)"
    by (simp add: memory_get_stored adapter_expired_iff)
  have c: "fst (ls_get js key now w) =
        (if \<exists>x. expiresAt e = Some x \<and> x \<noteq> 0 \<and> x < now then None else Some e)"
    if "window_defined w" "setItem_ok w testKey ''test''" "key \<noteq> testKey"
      "items w key = Some raw" "raw \<noteq> []" "JSON_parse js raw = Some e"
    using ls_get_stored [OF that] by (simp add: adapter_expired_iff)
  have d: "fst (restoreFlag memoryAdapter key r f oe (clock_at now) st) =
        Returns (if expiresAt e = None \<or> expiresAt e = Some 0 \<or> (\<exists>x. expiresAt e = Some x \<and> now < x)
                 then flag_value e else False)"
    if "flagCache st key = None" "store st key = Some e"
    using restoreFlag_memory [OF that, of r f oe "clock_at now"] both by (simp add: clock_at_def)
  have p: "fst (ls_get js testKey now w) = None"
    if "window_defined w" "setItem_ok w testKey ''test''"
    using ls_get_probe_key [OF that] by simp
  have l: "fst (restoreFlag (localStorageAdapter js) key r f oe (clock_at now) st_ls) =
        Returns (if expiresAt e = None \<or> expiresAt e = Some 0 \<or> (\<exists>x. expiresAt e = Some x \<and> now < x)
                 then flag_value e else False)"
    if h: "window_defined w" "setItem_ok w testKey ''test''" "key \<noteq> testKey"
      "items w key = Some raw" "raw \<noteq> []" "JSON_parse js raw = Some e"
      and n: "flagCache st_ls key = None" and s: "store st_ls = w"
  proof -
    have g: "fst (adapter_get (localStorageAdapter js) key (now_adapter (clock_at now)) (store st_ls)) =
        Returns (Sync (if adapter_expired now e then None else Some e))"
      using ls_get_stored [OF h] s by (simp add: localStorageAdapter_get clock_at_def)
    have v: "valid_entry (now_cache (clock_at now)) (flagCache st_ls key) = None"
      using n by (simp add: valid_entry_def)
    show ?thesis
      using restoreFlag_sync_result [OF v g, of r f oe] both
      by (auto simp: valid_entry_def clock_at_def)
  qed
  have k: "fst (restoreFlag ad key r f oe clk st_a) = Returns (flag_value e)"
    if "flagCache st_a key = Some e"
      "expiresAt e = None \<or> expiresAt e = Some 0 \<or> (\<exists>x. expiresAt e = Some x \<and> now_cache clk < x)"
    using that a [of "now_cache clk"] by (auto simp: restoreFlag_def valid_entry_def)
  have g: "fst (restoreFlag ad key r f oe clk st_a) =
        Returns (if expiresAt e = None \<or> expiresAt e = Some 0 \<or>
                    (\<exists>x. expiresAt e = Some x \<and> now_result clk < x)
                 then flag_value e else False)"
    if "valid_entry (now_cache clk) (flagCache st_a key) = None"
      "fst (adapter_get ad key (now_adapter clk) (store st_a)) = Returns (Sync (Some e))"
    using restoreFlag_sync_result [OF that, of r f oe] a [of "now_result clk"]
    by (auto simp: valid_entry_def)
  have i: "flagCache (preload_flag ad pre oe clk f st_a) (pre @ f) =
        (if expiresAt e = None \<or> expiresAt e = Some 0 \<or>
            (\<exists>x. expiresAt e = Some x \<and> now_result clk < x)
         then Some e else flagCache st_a (pre @ f))"
    if "settled (fst (adapter_get ad (pre @ f) (now_adapter clk) (store st_a))) = Returns (Some e)"
    using preload_flag_cache [OF that, of oe] a [of "now_result clk"]
    by (auto simp: valid_entry_def)
  from a [of now] b c d p l k g i show ?thesis by blast
qed

theorem C2_expiry_rule_witness:
  "fst (ls_get (js_for entry1000) ''flipflag:f'' 1000 (window_with [''flipflag:f'' \<mapsto> ''E''])) =
     Some entry1000 \<and>
   fst (restoreFlag memoryAdapter ''flipflag:f'' True ''f'' True (clock_at 1000)
          \<lparr> store = [''flipflag:f'' \<mapsto> entry1000], flagCache = Map.empty, log = [], deferred = [] \<rparr>) =
     Returns False \<and>
   fst (restoreFlag memoryAdapter ''flipflag:f'' True ''f'' True (clock_at 999)
          \<lparr> store = [''flipflag:f'' \<mapsto> entry1000], flagCache = Map.empty, log = [], deferred = [] \<rparr>) =
     Returns True \<and>
   fst (restoreFlag (localStorageAdapter (js_for entry1000)) ''flipflag:f'' True ''f'' True (clock_at 1000)
          \<lparr> store = window_with [''flipflag:f'' \<mapsto> ''E''], flagCache = Map.empty, log = [],
            deferred = [] \<rparr>) =
     Returns False \<and>
   flagCache (preload_flag memoryAdapter ''flipflag:'' True (clock_at 1000) ''f''
                \<lparr> store = [''flipflag:f'' \<mapsto> entry1000], flagCache = Map.empty, log = [],
                  deferred = [] \<rparr>) ''flipflag:f'' = None \<and>
   flagCache (preload_flag memoryAdapter ''flipflag:'' True (clock_at 999) ''f''
                \<lparr> store = [''flipflag:f'' \<mapsto> entry1000], flagCache = Map.empty, log = [],
                  deferred = [] \<rparr>) ''flipflag:f'' = Some entry1000"
  using
    C2_expiry_rule [where now = 1000 and e = entry1000 and key = "''flipflag:f''"
      and w = "window_with [''flipflag:f'' \<mapsto> ''E'']" and raw = "''E''" and js = "js_for entry1000"
      and st = "\<lparr> store = [''flipflag:f'' \<mapsto> entry1000], flagCache = Map.empty, log = [],
                 deferred = [] \<rparr>"
      and st_ls = "\<lparr> store = window_with [''flipflag:f'' \<mapsto> ''E''], flagCache = Map.empty, log = [],
                 deferred = [] \<rparr>"
      and st_a = "\<lparr> store = [''flipflag:f'' \<mapsto> entry1000], flagCache = Map.empty, log = [],
                 deferred = [] \<rparr>"
      and ad = memoryAdapter and pre = "''flipflag:''" and clk = "clock_at 1000"
      and r = True and f = "''f''" and oe = True]
    C2_expiry_rule [where now = 999 and e = entry1000 and key = "''flipflag:f''"
      and w = "window_with [''flipflag:f'' \<mapsto> ''E'']" and raw = "''E''" and js = "js_for entry1000"
      and st = "\<lparr> store = [''flipflag:f'' \<mapsto> entry1000], flagCache = Map.empty, log = [],
                 deferred = [] \<rparr>"
      and st_a = "\<lparr> store = [''flipflag:f'' \<mapsto> entry1000], flagCache = Map.empty, log = [],
                 deferred = [] \<rparr>"
      and ad = memoryAdapter and pre = "''flipflag:''" and clk = "clock_at 999"
      and r = True and f = "''f''" and oe = True]
  by (simp add: entry1000_def js_for_def window_with_def testKey_def clock_at_def
      memoryAdapter_def sync_adapter_def memory_get_def adapter_expired_def)

section \<open>A zero \<open>expiresAt\<close>\<close>

text \<open>
  C10: an entry whose \<open>expiresAt\<close> is present and equal to \<open>0\<close> never expires. At every
  current time the adapters' TTL check does not fire, so the memory adapter's \<open>get\<close> and the
  localStorage adapter's \<open>get\<close> (on an available store whose payload parses to the entry)
  return it and leave the slot alone, and the interceptor's restoration returns its value,
  whether it finds the entry in the shadow cache (any adapter) or through the memory adapter.
\<close>

theorem C10_zero_expiresAt_never_expires:
  assumes "expiresAt e = Some 0"
  shows "\<not> adapter_expired now e \<and> entry_valid now e \<and>
    memory_get key now (storage(key \<mapsto> e)) = (Some e, storage(key \<mapsto> e)) \<and>
    (window_defined w \<and> setItem_ok w testKey ''test'' \<and> key \<noteq> testKey \<and>
     items w key = Some raw \<and> raw \<noteq> [] \<and> JSON_parse js raw = Some e \<longrightarrow>
       fst (ls_get js key now w) = Some e \<and> items (snd (ls_get js key now w)) key = Some raw) \<and>
    (flagCache st key = Some e \<longrightarrow>
       fst (restoreFlag ad key r f oe clk st) = Returns (flag_value e)) \<and>
    (flagCache st' key = None \<and> store st' key = Some e \<longrightarrow>
       fst (restoreFlag memoryAdapter key r f oe clk st') = Returns (flag_value e))"
proof -
  have x: "\<not> adapter_expired t e" for t
    using assms by (simp add: adapter_expired_def)
  have v: "entry_valid t e" for t
    using assms by (simp add: entry_valid_def)
  have m: "memory_get key now (storage(key \<mapsto> e)) = (Some e, storage(key \<mapsto> e))"
    using x by (simp add: memory_get_stored)
  have l: "fst (ls_get js key now w) = Some e \<and> items (snd (ls_get js key now w)) key = Some raw"
    if "window_defined w" "setItem_ok w testKey ''test''" "key \<noteq> testKey"
      "items w key = Some raw" "raw \<noteq> []" "JSON_parse js raw = Some e"
    using ls_get_stored [OF that] x that by simp
  have c: "fst (restoreFlag ad key r f oe clk st) = Returns (flag_value e)"
    if "flagCache st key = Some e"
    using that v by (simp add: restoreFlag_def valid_entry_def)
  have a: "fst (restoreFlag memoryAdapter key r f oe clk st') = Returns (flag_value e)"
    if "flagCache st' key = None" "store st' key = Some e"
    using restoreFlag_memory [OF that] x v by simp
  from x v m l c a show ?thesis by blast
qed

theorem C10_zero_expiresAt_never_expires_witness:
  "expiresAt entry0 = Some 0 \<and>
   fst (ls_get (js_for entry0) ''flipflag:f'' 1700000000000 (window_with [''flipflag:f'' \<mapsto> ''E''])) =
     Some entry0 \<and>
   fst (restoreFlag throwingAdapter ''flipflag:f'' True ''f'' True (clock_at 1700000000000)
          \<lparr> store = (), flagCache = [''flipflag:f'' \<mapsto> entry0], log = [], deferred = [] \<rparr>) =
     Returns True \<and>
   fst (restoreFlag memoryAdapter ''flipflag:f'' True ''f'' True (clock_at 1700000000000)
          \<lparr> store = [''flipflag:f'' \<mapsto> entry0], flagCache = Map.empty, log = [], deferred = [] \<rparr>) =
     Returns True"
  using
    C10_zero_expiresAt_never_expires [where e = entry0 and key = "''flipflag:f''"
      and w = "window_with [''flipflag:f'' \<mapsto> ''E'']" and raw = "''E''" and js = "js_for entry0"
      and st = "\<lparr> store = (), flagCache = [''flipflag:f'' \<mapsto> entry0], log = [], deferred = [] \<rparr>"
      and st' = "\<lparr> store = [''flipflag:f'' \<mapsto> entry0], flagCache = Map.empty, log = [],
                  deferred = [] \<rparr>"
      and now = 1700000000000 and storage = Map.empty and ad = throwingAdapter and r = True
      and f = "''f''" and oe = True and clk = "clock_at 1700000000000"]
  by (simp add: entry0_def js_for_def window_with_def testKey_def)

section \<open>Expired entries\<close>

text \<open>
  C5, as the specification has it: for every stored entry whose \<open>expiresAt\<close> lies strictly
  in the past, \<open>get\<close> returns absent and deletes the slot. It fails for an \<open>expiresAt\<close> of
  \<open>0\<close>: at time \<open>5\<close> the memory adapter returns the entry and keeps the slot.
\<close>

theorem C5_counterexample:
  "expiresAt entry0 = Some 0 \<and> (0::int) < 5 \<and>
   memory_get ''flipflag:f'' 5 [''flipflag:f'' \<mapsto> entry0] = (Some entry0, [''flipflag:f'' \<mapsto> entry0])"
  by (simp add: entry0_def memory_get_def adapter_expired_def)

text \<open>
  C5, amended: for every entry stored under a key whose \<open>expiresAt\<close> is non-zero and lies
  strictly in the past at read time, the \<open>get\<close> of the memory adapter, and the \<open>get\<close> of the
  localStorage adapter on a store that passes the availability probe, returns absent and
  deletes the slot of that key.
\<close>

theorem C5_expired_entry_removed:
  assumes "expiresAt e = Some x" and "x \<noteq> 0" and "x < now"
  shows "(storage key = Some e \<longrightarrow> memory_get key now storage = (None, storage(key := None))) \<and>
    (window_defined w \<and> setItem_ok w testKey ''test'' \<and>
     items w key = Some raw \<and> raw \<noteq> [] \<and> JSON_parse js raw = Some e \<longrightarrow>
       fst (ls_get js key now w) = None \<and> items (snd (ls_get js key now w)) key = None)"
proof -
  have x: "adapter_expired now e"
    using assms by (simp add: adapter_expired_def)
  have m: "memory_get key now storage = (None, storage(key := None))" if "storage key = Some e"
    using memory_get_stored [of storage key e now] that x by simp
  have l: "fst (ls_get js key now w) = None \<and> items (snd (ls_get js key now w)) key = None"
    if h: "window_defined w" "setItem_ok w testKey ''test''"
      "items w key = Some raw" "raw \<noteq> []" "JSON_parse js raw = Some e"
  proof (cases "key = testKey")
    case True
    then show ?thesis using ls_get_probe_key [OF h(1,2)] by simp
  next
    case False
    then show ?thesis using ls_get_stored [OF h(1,2) False h(3,4,5)] x by simp
  qed
  from m l show ?thesis by blast
qed

theorem C5_expired_entry_removed_witness:
  "memory_get ''flipflag:f'' 1001 [''flipflag:f'' \<mapsto> entry1000] = (None, Map.empty) \<and>
   fst (ls_get (js_for entry1000) ''flipflag:f'' 1001 (window_with [''flipflag:f'' \<mapsto> ''E''])) = None \<and>
   items (snd (ls_get (js_for entry1000) ''flipflag:f'' 1001 (window_with [''flipflag:f'' \<mapsto> ''E''])))
     ''flipflag:f'' = None"
  using
    C5_expired_entry_removed [where e = entry1000 and x = 1000 and now = 1001
      and storage = "[''flipflag:f'' \<mapsto> entry1000]" and key = "''flipflag:f''"
      and w = "window_with [''flipflag:f'' \<mapsto> ''E'']" and raw = "''E''" and js = "js_for entry1000"]
  by (simp add: entry1000_def js_for_def window_with_def)

section \<open>Facts about the cookie jar\<close>

lemma assign_cookie_fields:
  "document_defined (assign_cookie c d) = document_defined d"
  "cookie_throws (assign_cookie c d) = cookie_throws d"
  "accepts (assign_cookie c d) = accepts d"
  "visible (assign_cookie c d) = visible d"
  "default_path (assign_cookie c d) = default_path d"
  "doc_console (assign_cookie c d) = doc_console d"
  by (simp_all add: assign_cookie_def)

lemma cookie_isAvailable_fields:
  "document_defined (snd (cookie_isAvailable d)) = document_defined d"
  "cookie_throws (snd (cookie_isAvailable d)) = cookie_throws d"
  "accepts (snd (cookie_isAvailable d)) = accepts d"
  "visible (snd (cookie_isAvailable d)) = visible d"
  "default_path (snd (cookie_isAvailable d)) = default_path d"
  "doc_console (snd (cookie_isAvailable d)) = doc_console d"
  by (simp_all add: cookie_isAvailable_def Let_def assign_cookie_fields)


















lemma probe_empty_jar: "cookie_isAvailable (doc_with []) = (True, doc_with [])"
  by (simp add: cookie_isAvailable_def doc_with_def assign_cookie_def probe_cookie_def
      same_cookie_def cookie_path_def cookie_expired_def document_cookie_def testKey_def Let_def)





section \<open>Corrupted payloads\<close>




text \<open>
  Where the key brings pattern syntax of its own the lookup goes elsewhere: under the key
  \<open>f(x)\<close> the pattern is \<^verbatim>\<open>(^| )f(x)=([^;]+)\<close>, which does not match the cookie \<open>f(x)\<close>, so
  \<open>get\<close> returns absent and the corrupt cookie stays.
\<close>

lemma unescaped_key_misses_own_cookie:
  "encodeURIComponent ''f(x)'' = ''f(x)'' \<and>
   cookie_get (js_for entry0) default_cookie_options ''f(x)'' 10 (doc_with [cookie_of ''f(x)'' ''garbage'']) =
     (None, doc_with [cookie_of ''f(x)'' ''garbage''])"
proof -
  have e: "encodeURIComponent ''f(x)'' = ''f(x)''"
    by (simp add: encodeURIComponent_def encode_char_def unreserved_def)
  have p: "cookie_isAvailable (doc_with [cookie_of ''f(x)'' ''garbage'']) =
      (True, doc_with [cookie_of ''f(x)'' ''garbage''])"
    by (simp add: cookie_isAvailable_def doc_with_def cookie_of_def assign_cookie_def probe_cookie_def
        same_cookie_def cookie_path_def cookie_expired_def document_cookie_def testKey_def Let_def)
  have g: "getCookie (js_for entry0) ''f(x)'' (doc_with [cookie_of ''f(x)'' ''garbage'']) = Returns None"
    by (simp add: getCookie_def e doc_with_def cookie_of_def document_cookie_def
        cookie_path_def cookie_pattern_def seq_of_def clear_groups_def)
  show ?thesis
    by (simp add: e cookie_get_def p g)
qed

section \<open>Oversized cookie payloads\<close>

lemma cookie_set_oversized:
  assumes "length (JSON_stringify js e) > 4000"
  shows "cookie_set js options key e d =
      (if fst (cookie_isAvailable d)
       then (snd (cookie_isAvailable d))\<lparr> doc_console := doc_console d @ [CookieTooLarge key] \<rparr>
       else snd (cookie_isAvailable d))"
  using assms cookie_isAvailable_fields(6) [of d]
  by (cases "cookie_isAvailable d") (auto simp: cookie_set_def split: bool.splits)

lemma cookie_get_not_found:
  assumes "getCookie js key (snd (cookie_isAvailable d)) = Returns None"
  shows "fst (cookie_get js options key now d) = None"
  using assms by (cases "cookie_isAvailable d") (auto simp: cookie_get_def split: bool.splits)

lemma encode_flipflag_a_dot_b: "encodeURIComponent ''flipflag:a.b'' = ''flipflag%3Aa.b''"
  by (simp add: encodeURIComponent_def encode_char_def unreserved_def hex_digit_def)

lemma probe_aXb_jar:
  "cookie_isAvailable (doc_with [cookie_of ''flipflag%3AaXb'' ''E'']) =
     (True, doc_with [cookie_of ''flipflag%3AaXb'' ''E''])"
  by (simp add: cookie_isAvailable_def doc_with_def cookie_of_def assign_cookie_def probe_cookie_def
      same_cookie_def cookie_path_def cookie_expired_def document_cookie_def testKey_def Let_def)

lemma probe_aXb_jar_warned:
  "cookie_isAvailable ((doc_with [cookie_of ''flipflag%3AaXb'' ''E''])\<lparr> doc_console := cs \<rparr>) =
     (True, (doc_with [cookie_of ''flipflag%3AaXb'' ''E''])\<lparr> doc_console := cs \<rparr>)"
  by (simp add: cookie_isAvailable_def doc_with_def cookie_of_def assign_cookie_def probe_cookie_def
      same_cookie_def cookie_path_def cookie_expired_def document_cookie_def testKey_def Let_def)

lemma lookup_a_dot_b:
  "getCookie (js_big_for entry0) ''flipflag:a.b''
     ((doc_with [cookie_of ''flipflag%3AaXb'' ''E''])\<lparr> doc_console := cs \<rparr>) = Returns (Some ''E'')"
  by (simp add: getCookie_def encode_flipflag_a_dot_b doc_with_def cookie_of_def document_cookie_def
      cookie_path_def cookie_pattern_def seq_of_def clear_groups_def js_big_for_def)

text \<open>
  C9 says that after a \<open>set\<close> whose payload is oversized, a \<open>get\<close> of the key returns absent
  when nothing was stored under it before. The first half holds: \<open>set\<close> writes no cookie
  and warns. The run below goes against the second. The jar holds one cookie, that of the
  flag \<open>aXb\<close>, and none for the key \<open>flipflag:a.b\<close>. \<open>getCookie\<close> puts the encoded key into
  its pattern unescaped, \<^verbatim>\<open>(^| )flipflag%3Aa.b=([^;]+)\<close>, where the dot stands for any
  character: the pattern matches the cookie of \<open>aXb\<close>, and \<open>get\<close> returns that flag's entry.
\<close>

theorem C9_unescaped_key_reads_other_cookie:
  "length (JSON_stringify (js_big_for entry0) entry1000) = 4500 \<and>
   map c_name (jar (doc_with [cookie_of ''flipflag%3AaXb'' ''E''])) = [''flipflag%3AaXb''] \<and>
   encodeURIComponent ''flipflag:a.b'' = ''flipflag%3Aa.b'' \<and>
   cookie_set (js_big_for entry0) default_cookie_options ''flipflag:a.b'' entry1000
     (doc_with [cookie_of ''flipflag%3AaXb'' ''E'']) =
     (doc_with [cookie_of ''flipflag%3AaXb'' ''E''])\<lparr> doc_console := [CookieTooLarge ''flipflag:a.b''] \<rparr> \<and>
   fst (cookie_get (js_big_for entry0) default_cookie_options ''flipflag:a.b'' 10
          (cookie_set (js_big_for entry0) default_cookie_options ''flipflag:a.b'' entry1000
             (doc_with [cookie_of ''flipflag%3AaXb'' ''E'']))) = Some entry0"
proof -
  let ?d = "doc_with [cookie_of ''flipflag%3AaXb'' ''E'']"
  have big: "length (JSON_stringify (js_big_for entry0) entry1000) = 4500"
    by (simp add: js_big_for_def)
  have names: "map c_name (jar ?d) = [''flipflag%3AaXb'']"
    by (simp add: doc_with_def cookie_of_def)
  have s: "cookie_set (js_big_for entry0) default_cookie_options ''flipflag:a.b'' entry1000 ?d =
      ?d\<lparr> doc_console := [CookieTooLarge ''flipflag:a.b''] \<rparr>"
    using big by (simp add: cookie_set_oversized probe_aXb_jar) (simp add: doc_with_def)
  have p: "JSON_parse (js_big_for entry0) ''E'' = Some entry0"
    by (simp add: js_big_for_def)
  have x: "\<not> adapter_expired 10 entry0"
    by (simp add: adapter_expired_def entry0_def)
  have g: "fst (cookie_get (js_big_for entry0) default_cookie_options ''flipflag:a.b'' 10
        (?d\<lparr> doc_console := [CookieTooLarge ''flipflag:a.b''] \<rparr>)) = Some entry0"
    by (simp add: cookie_get_def probe_aXb_jar_warned lookup_a_dot_b p x)
  show ?thesis
    using big names encode_flipflag_a_dot_b s g by simp
qed

section \<open>Reads through the interceptor\<close>

lemma memoryAdapter_get:
  "adapter_get memoryAdapter key now storage =
     (Returns (Sync (fst (memory_get key now storage))), snd (memory_get key now storage))"
  by (simp add: memoryAdapter_def sync_adapter_def)

lemma memoryAdapter_set:
  "adapter_set memoryAdapter key entry storage = (Returns (Sync ()), storage(key \<mapsto> entry))"
  by (simp add: memoryAdapter_def sync_adapter_def memory_set_def)


lemma localStorageAdapter_get_absent:
  "items w key = None \<Longrightarrow> fst (adapter_get (localStorageAdapter js) key now w) = Returns (Sync None)"
  by (simp add: localStorageAdapter_def sync_adapter_def ls_get_def ls_isAvailable_def)

lemma cookieAdapter_get_not_found:
  "getCookie js key (snd (cookie_isAvailable d)) = Returns None \<Longrightarrow>
   fst (adapter_get (cookieAdapter js options) key now d) = Returns (Sync None)"
  by (simp add: cookieAdapter_def sync_adapter_def cookie_get_not_found)

lemma persistFlag_returns:
  "\<exists>u. fst (persistFlag ad key v ttl op f oe clk st) = Returns u"
  by (simp add: persistFlag_def Let_def split: prod.splits completion.splits maybe_promise.splits)

lemma restoreFlag_returns:
  "\<exists>b. fst (restoreFlag ad key r f oe clk st) = Returns b"
  by (auto simp: restoreFlag_def split: prod.splits completion.splits maybe_promise.splits
      option.splits)

lemma isEnabled_evaluator_throws:
  "target flagName = Throws x \<Longrightarrow>
   isEnabled opts target flagName clk st =
     restoreFlag (adapter opts) (prefix_of opts @ flagName) (onRestore opts) flagName
       (onError opts) clk st"
  by (simp add: isEnabled_def)

lemma isEnabled_evaluator_returns:
  "target flagName = Returns v \<Longrightarrow>
   isEnabled opts target flagName clk st =
     (Returns v,
      snd (persistFlag (adapter opts) (prefix_of opts @ flagName) v (ttl_of opts) (onPersist opts)
             flagName (onError opts) clk st))"
  using persistFlag_returns [of "adapter opts" "prefix_of opts @ flagName" v "ttl_of opts"
      "onPersist opts" flagName "onError opts" clk st]
  by (cases "persistFlag (adapter opts) (prefix_of opts @ flagName) v (ttl_of opts) (onPersist opts)
        flagName (onError opts) clk st")
    (auto simp: isEnabled_def Let_def)

text \<open>
  C3: the wrapped \<open>isEnabled\<close> returns a boolean and does not throw, for every adapter
  (also one whose \<open>get\<close> and \<open>set\<close> throw or return promises), every evaluator, every flag
  name, clock and state. When the evaluator throws, the shadow cache holds no valid entry
  for the key and the adapter's \<open>get\<close> yields no valid entry synchronously (it throws,
  returns a promise, or returns absent or an entry that fails the validity test), the
  result is \<open>false\<close>.
\<close>

theorem C3_isEnabled_total:
  "(\<exists>b. fst (isEnabled opts target flagName clk st) = Returns b) \<and>
   ((\<exists>x. target flagName = Throws x) \<and>
    valid_entry (now_cache clk) (flagCache st (prefix_of opts @ flagName)) = None \<and>
    (\<forall>r. fst (adapter_get (adapter opts) (prefix_of opts @ flagName) (now_adapter clk) (store st)) =
            Returns (Sync r) \<longrightarrow> valid_entry (now_result clk) r = None) \<longrightarrow>
      fst (isEnabled opts target flagName clk st) = Returns False)"
proof -
  have total: "\<exists>b. fst (isEnabled opts target flagName clk st) = Returns b"
  proof (cases "target flagName")
    case (Returns v)
    then show ?thesis by (simp add: isEnabled_evaluator_returns)
  next
    case (Throws x)
    then show ?thesis by (simp add: isEnabled_evaluator_throws restoreFlag_returns)
  qed
  have dflt: "fst (isEnabled opts target flagName clk st) = Returns False"
    if t: "target flagName = Throws x"
      and c: "valid_entry (now_cache clk) (flagCache st (prefix_of opts @ flagName)) = None"
      and a: "\<forall>r. fst (adapter_get (adapter opts) (prefix_of opts @ flagName) (now_adapter clk) (store st)) =
            Returns (Sync r) \<longrightarrow> valid_entry (now_result clk) r = None"
    for x
    using c a isEnabled_evaluator_throws [of target flagName x opts clk st] t
    by (auto simp: restoreFlag_def
        split: prod.splits completion.splits maybe_promise.splits option.splits)
  from total dflt show ?thesis by blast
qed

theorem C3_isEnabled_total_witness:
  "fst (isEnabled (options_for throwingAdapter) evaluator_throws ''beta'' (clock_at 5)
          (withPersistence ())) = Returns False \<and>
   (\<exists>b. fst (isEnabled (options_for throwingAdapter) (evaluator_returns True) ''beta'' (clock_at 5)
          (withPersistence ())) = Returns b)"
  using
    C3_isEnabled_total [where opts = "options_for throwingAdapter" and target = evaluator_throws
      and flagName = "''beta''" and clk = "clock_at 5" and st = "withPersistence ()"]
    C3_isEnabled_total [where opts = "options_for throwingAdapter" and target = "evaluator_returns True"
      and flagName = "''beta''" and clk = "clock_at 5" and st = "withPersistence ()"]
  by (simp add: options_for_def throwingAdapter_def evaluator_throws_def withPersistence_def
      valid_entry_def)



text \<open>
  C8: when the shadow cache holds an entry for the flag's key that passes the validity test
  and the evaluator throws, the read returns the cached value, invokes \<open>onRestore\<close> with the
  flag name and that value, and leaves the adapter's state as it was: the adapter, of
  whatever kind, is not called.
\<close>

theorem C8_prewarmed_cache_restores:
  assumes "target flagName = Throws x"
    and "flagCache st (prefix_of opts @ flagName) = Some e"
    and "entry_valid (now_cache clk) e"
  shows "isEnabled opts target flagName clk st =
      (Returns (flag_value e),
       st\<lparr> log := call_opt (onRestore opts) (OnRestore flagName (flag_value e)) (log st) \<rparr>) \<and>
    store (snd (isEnabled opts target flagName clk st)) = store st"
  using assms isEnabled_evaluator_throws [of target flagName x opts clk st]
  by (simp add: restoreFlag_def valid_entry_def)

text \<open>
  A run of C8: an asynchronous adapter holds \<open>{value: true, expiresAt: 5000}\<close> for
  \<open>feature-x\<close>; \<open>init\<close> at time 100 pre-loads it (one call of \<open>get\<close>) and persists the
  evaluator's current value; the evaluator then throws at time 200. The read returns \<open>true\<close>,
  \<open>onRestore\<close> follows \<open>onPersist\<close> in the log, and the adapter's \<open>get\<close> count is still one.
\<close>

lemma prewarmed_eq:
  "prewarmed =
     \<lparr> store = (Suc 0, [''flipflag:feature-x'' \<mapsto>
                  \<lparr> flag_value = True, persistedAt = 100, expiresAt = Some 1100 \<rparr>]),
       flagCache = [''flipflag:feature-x'' \<mapsto>
                  \<lparr> flag_value = True, persistedAt = 100, expiresAt = Some 1100 \<rparr>],
       log = [OnPersist ''feature-x'' True],
       deferred = [] \<rparr>"
  by (simp add: prewarmed_def init_def options_for_def asyncAdapter_def preload_flag_def
      persistFlagAsync_def withPersistence_def clock_at_def prefix_of_def ttl_of_def
      DEFAULT_PREFIX_def memory_get_def memory_set_def adapter_expired_def valid_entry_def
      entry_valid_def call_opt_def Let_def)

theorem C8_prewarmed_cache_restores_witness:
  "fst (isEnabled (options_for asyncAdapter) evaluator_throws ''feature-x'' (clock_at 200) prewarmed) =
     Returns True \<and>
   log (snd (isEnabled (options_for asyncAdapter) evaluator_throws ''feature-x'' (clock_at 200)
               prewarmed)) =
     [OnPersist ''feature-x'' True, OnRestore ''feature-x'' True] \<and>
   fst (store prewarmed) = 1 \<and>
   fst (store (snd (isEnabled (options_for asyncAdapter) evaluator_throws ''feature-x''
                      (clock_at 200) prewarmed))) = 1"
proof -
  let ?e = "\<lparr> flag_value = True, persistedAt = 100, expiresAt = Some 1100 \<rparr>"
  have t: "evaluator_throws ''feature-x'' = Throws (ErrorObj ''evaluator unavailable'')"
    by (simp add: evaluator_throws_def)
  have c: "flagCache prewarmed (prefix_of (options_for asyncAdapter) @ ''feature-x'') = Some ?e"
    by (simp add: prewarmed_eq options_for_def prefix_of_def DEFAULT_PREFIX_def)
  have v: "entry_valid (now_cache (clock_at 200)) ?e"
    by (simp add: entry_valid_def clock_at_def)
  have r: "isEnabled (options_for asyncAdapter) evaluator_throws ''feature-x'' (clock_at 200) prewarmed =
      (Returns (flag_value ?e),
       prewarmed\<lparr> log := call_opt (onRestore (options_for asyncAdapter))
                   (OnRestore ''feature-x'' (flag_value ?e)) (log prewarmed) \<rparr>)"
    using C8_prewarmed_cache_restores [where target = evaluator_throws and flagName = "''feature-x''"
        and x = "ErrorObj ''evaluator unavailable''" and opts = "options_for asyncAdapter"
        and st = prewarmed and e = ?e and clk = "clock_at 200"] t c v
    by blast
  show ?thesis
    by (simp add: r) (simp add: prewarmed_eq options_for_def call_opt_def)
qed

section \<open>The persist observer\<close>

text \<open>
  C4, as the specification has it: \<open>onPersist\<close> is invoked only when the value was written,
  and a failed write, also a silent one, goes to \<open>onError\<close>. On the code, a read through the
  cookie adapter whose payload is oversized writes no cookie, yet \<open>onPersist\<close> is the one
  observer invoked; the same happens with a localStorage adapter where \<^verbatim>\<open>window\<close> is
  undefined.
\<close>

theorem C4_counterexample:
  "isEnabled (options_for (cookieAdapter js_big default_cookie_options)) (evaluator_returns True)
     ''f'' (clock_at 100) (withPersistence (doc_with [])) =
     (Returns True,
      \<lparr> store = (doc_with [])\<lparr> doc_console := [CookieTooLarge ''flipflag:f''] \<rparr>,
        flagCache = Map.empty, log = [OnPersist ''f'' True], deferred = [] \<rparr>) \<and>
   jar (doc_with []) = [] \<and>
   isEnabled (options_for (localStorageAdapter (js_for entry0))) (evaluator_returns True)
     ''f'' (clock_at 100) (withPersistence no_window) =
     (Returns True,
      \<lparr> store = no_window, flagCache = Map.empty, log = [OnPersist ''f'' True], deferred = [] \<rparr>) \<and>
   items no_window = Map.empty"
proof -
  have big: "length (JSON_stringify js_big e) > 4000" for e
    by (simp add: js_big_def)
  have s: "cookie_set js_big default_cookie_options ''flipflag:f'' e (doc_with []) =
      (doc_with [])\<lparr> doc_console := [CookieTooLarge ''flipflag:f''] \<rparr>" for e
    by (simp add: cookie_set_oversized [OF big] probe_empty_jar) (simp add: doc_with_def)
  have c: "isEnabled (options_for (cookieAdapter js_big default_cookie_options)) (evaluator_returns True)
     ''f'' (clock_at 100) (withPersistence (doc_with [])) =
     (Returns True,
      \<lparr> store = (doc_with [])\<lparr> doc_console := [CookieTooLarge ''flipflag:f''] \<rparr>,
        flagCache = Map.empty, log = [OnPersist ''f'' True], deferred = [] \<rparr>)"
    by (simp add: isEnabled_def persistFlag_def options_for_def cookieAdapter_def sync_adapter_def s
        withPersistence_def evaluator_returns_def prefix_of_def ttl_of_def DEFAULT_PREFIX_def
        call_opt_def Let_def)
  have l: "isEnabled (options_for (localStorageAdapter (js_for entry0))) (evaluator_returns True)
     ''f'' (clock_at 100) (withPersistence no_window) =
     (Returns True,
      \<lparr> store = no_window, flagCache = Map.empty, log = [OnPersist ''f'' True], deferred = [] \<rparr>)"
    by (simp add: isEnabled_def persistFlag_def options_for_def localStorageAdapter_def
        sync_adapter_def ls_set_def ls_isAvailable_def no_window_def withPersistence_def
        evaluator_returns_def prefix_of_def ttl_of_def DEFAULT_PREFIX_def call_opt_def Let_def)
  show ?thesis
    using c l by (simp add: doc_with_def no_window_def)
qed

lemma persistFlag_outcome:
  "snd (persistFlag ad key v ttl op f oe clk st) =
     (let entry = \<lparr> flag_value = v, persistedAt = now_persistedAt clk,
                    expiresAt = Some (now_expiresAt clk + ttl) \<rparr>;
          r = adapter_set ad key entry (store st)
      in case fst r of
           Throws e \<Rightarrow> st\<lparr> store := snd r, log := call_opt oe (OnError (to_Error e)) (log st) \<rparr>
         | Returns (Sync u) \<Rightarrow> st\<lparr> store := snd r, log := call_opt op (OnPersist f v) (log st) \<rparr>
         | Returns (Promise (Returns u)) \<Rightarrow>
             st\<lparr> store := snd r, deferred := call_opt op (OnPersist f v) (deferred st) \<rparr>
         | Returns (Promise (Throws e)) \<Rightarrow>
             st\<lparr> store := snd r, deferred := call_opt oe (OnError (to_Error e)) (deferred st) \<rparr>)"
  by (simp add: persistFlag_def Let_def split: prod.splits completion.splits maybe_promise.splits)

text \<open>
  C4, amended. After a successful evaluation, \<open>onPersist\<close> is invoked with the flag name and
  the value whenever \<open>adapter.set\<close> returns without throwing: at once for a synchronous
  result, and once the promise has resolved for an asynchronous one. \<open>onError\<close> is invoked
  instead exactly when \<open>set\<close> throws or its promise rejects. Whether anything was written
  plays no part: the localStorage and cookie adapters never throw from \<open>set\<close>, so with them
  \<open>onPersist\<close> is invoked and \<open>onError\<close> is not, in every state of the host.
\<close>

theorem C4_onPersist_follows_set_returning:
  assumes "target flagName = Returns v"
    and "entry = \<lparr> flag_value = v, persistedAt = now_persistedAt clk,
                    expiresAt = Some (now_expiresAt clk + ttl_of opts) \<rparr>"
    and "r = fst (adapter_set (adapter opts) (prefix_of opts @ flagName) entry (store st))"
    and "st' = snd (isEnabled opts target flagName clk st)"
  shows "((\<exists>u. r = Returns (Sync u)) \<longrightarrow>
       log st' = call_opt (onPersist opts) (OnPersist flagName v) (log st) \<and> deferred st' = deferred st) \<and>
    ((\<exists>u. r = Returns (Promise (Returns u))) \<longrightarrow>
       log st' = log st \<and>
       deferred st' = call_opt (onPersist opts) (OnPersist flagName v) (deferred st)) \<and>
    (\<forall>e. r = Throws e \<longrightarrow>
       log st' = call_opt (onError opts) (OnError (to_Error e)) (log st) \<and> deferred st' = deferred st) \<and>
    (\<forall>e. r = Returns (Promise (Throws e)) \<longrightarrow>
       log st' = log st \<and>
       deferred st' = call_opt (onError opts) (OnError (to_Error e)) (deferred st)) \<and>
    (log (snd (isEnabled (opts_ls\<lparr> adapter := localStorageAdapter js \<rparr>) target flagName clk st_ls)) =
         call_opt (onPersist opts_ls) (OnPersist flagName v) (log st_ls)) \<and>
    (log (snd (isEnabled (opts_c\<lparr> adapter := cookieAdapter js options \<rparr>) target flagName clk st_c)) =
         call_opt (onPersist opts_c) (OnPersist flagName v) (log st_c))"
proof -
  have s: "st' = snd (persistFlag (adapter opts) (prefix_of opts @ flagName) v (ttl_of opts)
                        (onPersist opts) flagName (onError opts) clk st)"
    using assms(1,4) isEnabled_evaluator_returns [of target flagName v opts clk st] by simp
  have generic:
    "((\<exists>u. r = Returns (Sync u)) \<longrightarrow>
       log st' = call_opt (onPersist opts) (OnPersist flagName v) (log st) \<and> deferred st' = deferred st) \<and>
    ((\<exists>u. r = Returns (Promise (Returns u))) \<longrightarrow>
       log st' = log st \<and>
       deferred st' = call_opt (onPersist opts) (OnPersist flagName v) (deferred st)) \<and>
    (\<forall>e. r = Throws e \<longrightarrow>
       log st' = call_opt (onError opts) (OnError (to_Error e)) (log st) \<and> deferred st' = deferred st) \<and>
    (\<forall>e. r = Returns (Promise (Throws e)) \<longrightarrow>
       log st' = log st \<and>
       deferred st' = call_opt (onError opts) (OnError (to_Error e)) (deferred st))"
    unfolding s persistFlag_outcome using assms(2,3)
    by (auto simp: Let_def)
  have ls: "log (snd (isEnabled (opts_ls\<lparr> adapter := localStorageAdapter js \<rparr>) target flagName clk st_ls)) =
         call_opt (onPersist opts_ls) (OnPersist flagName v) (log st_ls)"
    using assms(1)
      isEnabled_evaluator_returns [of target flagName v "opts_ls\<lparr> adapter := localStorageAdapter js \<rparr>"
        clk st_ls]
    by (simp add: persistFlag_outcome localStorageAdapter_def sync_adapter_def)
  have ck: "log (snd (isEnabled (opts_c\<lparr> adapter := cookieAdapter js options \<rparr>) target flagName clk st_c)) =
         call_opt (onPersist opts_c) (OnPersist flagName v) (log st_c)"
    using assms(1)
      isEnabled_evaluator_returns [of target flagName v "opts_c\<lparr> adapter := cookieAdapter js options \<rparr>"
        clk st_c]
    by (simp add: persistFlag_outcome cookieAdapter_def sync_adapter_def)
  from generic ls ck show ?thesis by blast
qed

theorem C4_onPersist_follows_set_returning_witness:
  "log (snd (isEnabled (options_for throwingAdapter) (evaluator_returns True) ''f'' (clock_at 100)
               (withPersistence ()))) = [OnError (ErrorObj ''storage failure'')] \<and>
   log (snd (isEnabled (options_for memoryAdapter) (evaluator_returns True) ''f'' (clock_at 100)
               (withPersistence Map.empty))) = [OnPersist ''f'' True] \<and>
   log (run_deferred (snd (isEnabled (options_for asyncAdapter) (evaluator_returns True) ''f''
               (clock_at 100) (withPersistence (0, Map.empty))))) = [OnPersist ''f'' True] \<and>
   log (snd (isEnabled (options_for (localStorageAdapter (js_for entry0))) (evaluator_returns True) ''f''
               (clock_at 100) (withPersistence no_window))) = [OnPersist ''f'' True]"
  using
    C4_onPersist_follows_set_returning [where target = "evaluator_returns True" and flagName = "''f''"
      and v = True and clk = "clock_at 100" and opts = "options_for throwingAdapter"
      and st = "withPersistence ()" and opts_ls = "options_for (localStorageAdapter (js_for entry0))"
      and js = "js_for entry0" and st_ls = "withPersistence no_window", OF _ refl refl refl]
    C4_onPersist_follows_set_returning [where target = "evaluator_returns True" and flagName = "''f''"
      and v = True and clk = "clock_at 100" and opts = "options_for memoryAdapter"
      and st = "withPersistence Map.empty", OF _ refl refl refl]
    C4_onPersist_follows_set_returning [where target = "evaluator_returns True" and flagName = "''f''"
      and v = True and clk = "clock_at 100" and opts = "options_for asyncAdapter"
      and st = "withPersistence (0, Map.empty)", OF _ refl refl refl]
  by (simp add: options_for_def throwingAdapter_def memoryAdapter_def sync_adapter_def
      asyncAdapter_def evaluator_returns_def withPersistence_def call_opt_def run_deferred_def)

section \<open>Round trip through storage\<close>

lemma after_init_eq:
  "after_init =
     \<lparr> store = [''flipflag:f'' \<mapsto> \<lparr> flag_value = False, persistedAt = 0, expiresAt = Some 1000 \<rparr>],
       flagCache = [''flipflag:f'' \<mapsto> \<lparr> flag_value = False, persistedAt = 0, expiresAt = Some 1000 \<rparr>],
       log = [OnPersist ''f'' False],
       deferred = [] \<rparr>"
  by (simp add: after_init_def init_def options_for_def memoryAdapter_def sync_adapter_def
      preload_flag_def persistFlagAsync_def withPersistence_def clock_at_def prefix_of_def
      ttl_of_def DEFAULT_PREFIX_def memory_get_def memory_set_def valid_entry_def call_opt_def
      Let_def)

lemma after_read_eq:
  "isEnabled (options_for memoryAdapter) (evaluator_returns True) ''f'' (clock_at 10) after_init =
     (Returns True,
      \<lparr> store = [''flipflag:f'' \<mapsto> \<lparr> flag_value = True, persistedAt = 10, expiresAt = Some 1010 \<rparr>],
        flagCache = [''flipflag:f'' \<mapsto> \<lparr> flag_value = False, persistedAt = 0, expiresAt = Some 1000 \<rparr>],
        log = [OnPersist ''f'' False, OnPersist ''f'' True],
        deferred = [] \<rparr>)"
  by (simp add: after_init_eq isEnabled_def persistFlag_def options_for_def memoryAdapter_def
      sync_adapter_def evaluator_returns_def clock_at_def prefix_of_def ttl_of_def
      DEFAULT_PREFIX_def memory_set_def call_opt_def Let_def)

text \<open>
  C1 says that a successful read followed, within the TTL, by a read for which the evaluator
  throws returns the value the first read persisted. The run below goes against it. \<open>init\<close>
  at time 0 persists \<open>false\<close> for \<open>f\<close> and puts that entry into the shadow cache. The read at
  time 10 succeeds with \<open>true\<close> and writes \<open>true\<close> to the memory adapter; \<open>persistFlag\<close>
  leaves the shadow cache alone, where \<open>persistFlagAsync\<close> updates it. The read at time 11,
  one millisecond later with a TTL of 1000, finds the evaluator throwing and returns the
  cached \<open>false\<close>, not the persisted \<open>true\<close>.
\<close>

theorem C1_stale_shadow_cache:
  "fst (isEnabled (options_for memoryAdapter) (evaluator_returns True) ''f'' (clock_at 10) after_init) =
     Returns True \<and>
   store after_read ''flipflag:f'' =
     Some \<lparr> flag_value = True, persistedAt = 10, expiresAt = Some 1010 \<rparr> \<and>
   flagCache after_read ''flipflag:f'' =
     Some \<lparr> flag_value = False, persistedAt = 0, expiresAt = Some 1000 \<rparr> \<and>
   fst (isEnabled (options_for memoryAdapter) evaluator_throws ''f'' (clock_at 11) after_read) =
     Returns False \<and>
   log (snd (isEnabled (options_for memoryAdapter) evaluator_throws ''f'' (clock_at 11) after_read)) =
     [OnPersist ''f'' False, OnPersist ''f'' True, OnRestore ''f'' False]"
proof -
  have r: "after_read =
      \<lparr> store = [''flipflag:f'' \<mapsto> \<lparr> flag_value = True, persistedAt = 10, expiresAt = Some 1010 \<rparr>],
        flagCache = [''flipflag:f'' \<mapsto> \<lparr> flag_value = False, persistedAt = 0, expiresAt = Some 1000 \<rparr>],
        log = [OnPersist ''f'' False, OnPersist ''f'' True],
        deferred = [] \<rparr>"
    by (simp add: after_read_def after_read_eq)
  have 1: "fst (isEnabled (options_for memoryAdapter) (evaluator_returns True) ''f'' (clock_at 10)
              after_init) = Returns True"
    by (simp add: after_read_eq)
  have 2: "isEnabled (options_for memoryAdapter) evaluator_throws ''f'' (clock_at 11) after_read =
      (Returns False, after_read\<lparr> log := [OnPersist ''f'' False, OnPersist ''f'' True,
                                          OnRestore ''f'' False] \<rparr>)"
    by (simp add: r isEnabled_def restoreFlag_def options_for_def evaluator_throws_def
        clock_at_def prefix_of_def DEFAULT_PREFIX_def valid_entry_def entry_valid_def
        call_opt_def Let_def)
  show ?thesis
    using 1 by (simp add: 2) (simp add: r)
qed

text \<open>
  What does hold: with the memory adapter, when the shadow cache has no valid entry for the
  key at the second read (as when \<open>init\<close> was never run), the second read returns the
  value the first one persisted, provided its clock readings lie before the entry's
  \<open>expiresAt\<close>.
\<close>

lemma roundtrip_without_shadow_entry:
  assumes "target1 flagName = Returns v" and "target2 flagName = Throws x"
    and "adapter opts = memoryAdapter"
    and "st1 = snd (isEnabled opts target1 flagName clk1 st)"
    and "valid_entry (now_cache clk2) (flagCache st (prefix_of opts @ flagName)) = None"
    and "now_adapter clk2 < now_expiresAt clk1 + ttl_of opts"
    and "now_result clk2 < now_expiresAt clk1 + ttl_of opts"
  shows "fst (isEnabled opts target2 flagName clk2 st1) = Returns v"
proof -
  let ?key = "prefix_of opts @ flagName"
  let ?e = "\<lparr> flag_value = v, persistedAt = now_persistedAt clk1,
              expiresAt = Some (now_expiresAt clk1 + ttl_of opts) \<rparr>"
  have st1: "st1 = st\<lparr> store := (store st)(?key \<mapsto> ?e),
                        log := call_opt (onPersist opts) (OnPersist flagName v) (log st) \<rparr>"
    using assms(1,3,4) isEnabled_evaluator_returns [of target1 flagName v opts clk1 st]
    by (simp add: persistFlag_outcome memoryAdapter_set Let_def)
  have c: "valid_entry (now_cache clk2) (flagCache st1 ?key) = None"
    using assms(5) by (simp add: st1)
  have g: "adapter_get memoryAdapter ?key (now_adapter clk2) (store st1) = (Returns (Sync (Some ?e)), store st1)"
    using assms(6) by (simp add: st1 memoryAdapter_get memory_get_def adapter_expired_def)
  have v: "valid_entry (now_result clk2) (Some ?e) = Some ?e"
    using assms(7) by (simp add: valid_entry_def entry_valid_def)
  show ?thesis
    using assms(2,3) isEnabled_evaluator_throws [of target2 flagName x opts clk2 st1] c g v
    by (simp add: restoreFlag_def)
qed

end
